theory Spec2Isabelle
  imports Complex_Main
begin

section \<open>The snake session of \<^verbatim>\<open>src/App.tsx\<close>\<close>

text \<open>
  The component \<^verbatim>\<open>App\<close> keeps its session in refs (\<^verbatim>\<open>snakeCoordinates\<close>,
  \<^verbatim>\<open>direction\<close>, \<^verbatim>\<open>snakeCoordinatesMap\<close>, \<^verbatim>\<open>foodCoords\<close>, \<^verbatim>\<open>timer\<close>) and in
  React state (\<^verbatim>\<open>points\<close>, \<^verbatim>\<open>gameOver\<close>, \<^verbatim>\<open>isPlaying\<close>). The model is one record that
  every operation takes and returns. The setters of the state are read as taking effect
  before the next event, and every render shows the state of the record.

  A function of the component that reads \<^verbatim>\<open>gameOver\<close> reads the value of the render
  that created the function, not the state of the session. \<^verbatim>\<open>startGame\<close> and
  \<^verbatim>\<open>moveSnake\<close> therefore take that value as the argument \<open>captured\<close>: a click on START
  passes the value of the render that shows the button, and a timer passes the value that
  the \<^verbatim>\<open>startGame\<close> which created it had.
\<close>

subsection \<open>Constants and data\<close>

definition COLS :: int where "COLS = 48"
definition ROWS :: int where "ROWS = 48"
definition DEFAULT_LENGTH :: nat where "DEFAULT_LENGTH = 10"

datatype Direction = UP | DOWN | RIGHT | LEFT

record Coordinate =
  row :: int
  col :: int
  isHead :: "bool option"

record App =
  timer :: "nat option"
  snakeCoordinates :: "Coordinate list"
  direction :: Direction
  snakeCoordinatesMap :: "string set"
  foodCoords :: Coordinate
  points :: int
  gameOver :: bool
  isPlaying :: int
  randomCalls :: nat
  intervals :: "(nat \<times> bool) list"
  nextInterval :: nat

text \<open>
  The last three fields are not fields of the source; they are the part of the browser
  that the component uses. \<^verbatim>\<open>randomCalls\<close> counts the calls of \<^verbatim>\<open>Math.random()\<close> made so
  far; the results of these calls are a parameter \<open>random :: nat \<Rightarrow> real\<close> of the
  operations that sample, \<open>random i\<close> being the result of call number \<open>i\<close>.
  \<^verbatim>\<open>intervals\<close> lists the timers that \<^verbatim>\<open>setInterval\<close> has created and \<^verbatim>\<open>clearInterval\<close>
  has not cleared, each with the value of \<^verbatim>\<open>gameOver\<close> that its callback captured, and
  \<^verbatim>\<open>nextInterval\<close> is the handle that the next \<^verbatim>\<open>setInterval\<close> returns.

  A call that finds no room on the stack throws \<^verbatim>\<open>RangeError\<close>. An operation returns
  \<open>Inr\<close> with the session when it returns, and \<open>Inl\<close> with the error and the session as
  the throw leaves it.
\<close>

datatype error = RangeError

type_synonym result = "(error \<times> App) + App"

subsection \<open>Keys of the occupied set\<close>

text \<open>
  The set holds the strings \<^verbatim>\<open>`${coord.row}:${coord.col}`\<close>. Rows and columns are
  integers, which JavaScript prints in decimal with a leading minus sign (below
  \<open>10\<^sup>2\<^sup>1\<close> in absolute value; the coordinates of a session stay between \<open>- 1\<close> and 48).
\<close>

fun digits :: "nat \<Rightarrow> string" where
  "digits n =
     (if n < 10 then [''0123456789'' ! n]
      else digits (n div 10) @ [''0123456789'' ! (n mod 10)])"

definition numberToString :: "int \<Rightarrow> string" where
  "numberToString i = (if i < 0 then CHR ''-'' # digits (nat (- i)) else digits (nat i))"

definition coordsKey :: "int \<Rightarrow> int \<Rightarrow> string" where
  "coordsKey r c = numberToString r @ '':'' @ numberToString c"

subsection \<open>Direction input\<close>

definition getNewDirection :: "string \<Rightarrow> App \<Rightarrow> Direction" where
  "getNewDirection k s =
     (if k = ''ArrowUp'' then UP
      else if k = ''ArrowDown'' then DOWN
      else if k = ''ArrowRight'' then RIGHT
      else if k = ''ArrowLeft'' then LEFT
      else direction s)"

definition handleDirectionChange :: "string \<Rightarrow> App \<Rightarrow> App" where
  "handleDirectionChange k s =
     (let newDirection = getNewDirection k s in
      if (direction s = UP \<and> newDirection = DOWN) \<or>
         (direction s = DOWN \<and> newDirection = UP) \<or>
         (direction s = LEFT \<and> newDirection = RIGHT) \<or>
         (direction s = RIGHT \<and> newDirection = LEFT)
      then s
      else s\<lparr>direction := newDirection\<rparr>)"

text \<open>The four direction buttons of the component pass these keys.\<close>

fun buttonKey :: "Direction \<Rightarrow> string" where
  "buttonKey UP = ''ArrowUp''"
| "buttonKey LEFT = ''ArrowLeft''"
| "buttonKey RIGHT = ''ArrowRight''"
| "buttonKey DOWN = ''ArrowDown''"

subsection \<open>Double precision\<close>

text \<open>
  \<^verbatim>\<open>Math.random() * ROWS\<close> is a product of doubles, rounded to the nearest double, ties
  to the even significand. A double has 53 significant bits: the doubles from \<open>b\<close> to
  \<open>2 * b\<close>, for a power of two \<open>b\<close>, are the multiples of \<open>b / 2\<^sup>5\<^sup>2\<close>, and from the
  exponent \<open>- 1022\<close> down they are the multiples of \<open>2\<close> to the \<open>- 1074\<close>. \<open>ulpFrom k b u y\<close>
  is the step of the doubles at \<open>y\<close>, searched downwards from the power of two \<open>b\<close> with
  step \<open>u\<close> through at most \<open>k\<close> halvings, and \<open>toDouble y\<close> is the double nearest to a real
  \<open>y\<close> with \<open>0 \<le> y < 64\<close>, which covers the products of a number below 1 and 48.
\<close>

definition roundHalfEven :: "real \<Rightarrow> int" where
  "roundHalfEven q =
     (let n = \<lfloor>q\<rfloor>; d = q - of_int n
      in if d < 1 / 2 then n
         else if 1 / 2 < d then n + 1
         else if even n then n
         else n + 1)"

fun ulpFrom :: "nat \<Rightarrow> real \<Rightarrow> real \<Rightarrow> real \<Rightarrow> real" where
  "ulpFrom 0 b u y = u"
| "ulpFrom (Suc k) b u y = (if b \<le> y then u else ulpFrom k (b / 2) (u / 2) y)"

definition toDouble :: "real \<Rightarrow> real" where
  "toDouble y =
     (let u = ulpFrom 1027 32 (32 / 2 ^ 52) y
      in of_int (roundHalfEven (y / u)) * u)"

subsection \<open>The occupied set and food placement\<close>

definition syncSnakeCoordinatesMap :: "App \<Rightarrow> App" where
  "syncSnakeCoordinatesMap s =
     s\<lparr>snakeCoordinatesMap :=
         set (map (\<lambda>coord. coordsKey (row coord) (col coord)) (snakeCoordinates s))\<rparr>"

text \<open>
  \<^verbatim>\<open>populateFoodBall\<close> samples a row and a column and calls itself again when the key is
  in the occupied set. The call is not the last action of the function (a \<^verbatim>\<open>return\<close>
  follows it), so every attempt that fails keeps its frame on the stack. \<open>frames\<close> is the
  number of nested calls of \<^verbatim>\<open>populateFoodBall\<close> for which the stack has room at the point
  of the first call; the source does not fix it, the engine does. The call for which no
  room is left throws before it samples.
\<close>

fun populateFoodBall :: "(nat \<Rightarrow> real) \<Rightarrow> nat \<Rightarrow> App \<Rightarrow> result" where
  "populateFoodBall random 0 s = Inl (RangeError, s)"
| "populateFoodBall random (Suc frames) s =
     (let r = \<lfloor>toDouble (random (randomCalls s) * of_int ROWS)\<rfloor>;
          c = \<lfloor>toDouble (random (randomCalls s + 1) * of_int COLS)\<rfloor>;
          s1 = s\<lparr>randomCalls := randomCalls s + 2\<rparr>
      in if coordsKey r c \<in> snakeCoordinatesMap s1
         then populateFoodBall random frames s1
         else Inr (s1\<lparr>foodCoords := \<lparr>row = r, col = c, isHead = None\<rparr>\<rparr>))"

text \<open>
  The default snake of the mount effect and of \<^verbatim>\<open>resetGame\<close>: row 0, columns
  \<open>0 .. DEFAULT_LENGTH - 1\<close>, tail first, the last cell marked as head.
\<close>

definition snakePositions :: "Coordinate list" where
  "snakePositions =
     (let pushed = map (\<lambda>i. \<lparr>row = 0, col = int i, isHead = Some False\<rparr>) [0..<DEFAULT_LENGTH]
      in pushed[DEFAULT_LENGTH - 1 := (pushed ! (DEFAULT_LENGTH - 1))\<lparr>isHead := Some True\<rparr>])"

subsection \<open>Lifecycle\<close>

text \<open>\<^verbatim>\<open>clearInterval\<close> removes the timer with the handle from the timers of the browser.\<close>

definition clearInterval :: "nat \<Rightarrow> App \<Rightarrow> App" where
  "clearInterval handle s = s\<lparr>intervals := filter (\<lambda>(i, g). i \<noteq> handle) (intervals s)\<rparr>"

definition stopGame :: "App \<Rightarrow> App" where
  "stopGame s =
     (let s1 = s\<lparr>gameOver := True\<rparr>;
          s2 = s1\<lparr>isPlaying := 0\<rparr>
      in case timer s2 of
           None \<Rightarrow> s2
         | Some t \<Rightarrow> if t \<noteq> 0 then (clearInterval t s2)\<lparr>timer := None\<rparr> else s2)"

definition resetGame :: "(nat \<Rightarrow> real) \<Rightarrow> nat \<Rightarrow> App \<Rightarrow> result" where
  "resetGame random frames s =
     (let s1 = s\<lparr>snakeCoordinates := snakePositions\<rparr>;
          s2 = s1\<lparr>direction := RIGHT\<rparr>;
          s3 = s2\<lparr>gameOver := False\<rparr>;
          s4 = s3\<lparr>points := 0\<rparr>
      in populateFoodBall random frames (syncSnakeCoordinatesMap s4))"

text \<open>
  \<^verbatim>\<open>setInterval\<close> adds a timer whose callback calls the \<^verbatim>\<open>moveSnake\<close> of the render that
  created this \<^verbatim>\<open>startGame\<close>, so the timer carries the same captured value. \<^verbatim>\<open>startGame\<close>
  does not clear a timer that \<^verbatim>\<open>timer.current\<close> already holds.
\<close>

definition setInterval :: "bool \<Rightarrow> App \<Rightarrow> nat \<times> App" where
  "setInterval captured s =
     (nextInterval s,
      s\<lparr>intervals := intervals s @ [(nextInterval s, captured)],
        nextInterval := nextInterval s + 1\<rparr>)"

definition startGame :: "(nat \<Rightarrow> real) \<Rightarrow> nat \<Rightarrow> bool \<Rightarrow> App \<Rightarrow> result" where
  "startGame random frames captured s =
     (case (if captured then resetGame random frames s else Inr s) of
        Inl thrown \<Rightarrow> Inl thrown
      | Inr s1 \<Rightarrow>
          (let (interval, s2) = setInterval captured s1
           in Inr (s2\<lparr>timer := Some interval\<rparr>)))"

text \<open>
  The refs and state as the component declares them, with no timer and 1 as the first
  handle, and the mount effect that fills in the default snake, synchronises the set and
  places the first food.
\<close>

definition declared :: App where
  "declared =
     \<lparr>timer = None, snakeCoordinates = [], direction = RIGHT, snakeCoordinatesMap = {},
      foodCoords = \<lparr>row = - 1, col = - 1, isHead = None\<rparr>, points = 0, gameOver = False,
      isPlaying = 0, randomCalls = 0, intervals = [], nextInterval = 1\<rparr>"

definition mount :: "(nat \<Rightarrow> real) \<Rightarrow> nat \<Rightarrow> result" where
  "mount random frames =
     populateFoodBall random frames
       (syncSnakeCoordinatesMap (declared\<lparr>snakeCoordinates := snakePositions\<rparr>))"

subsection \<open>The tick\<close>

text \<open>
  The \<^verbatim>\<open>forEach\<close> over the array after \<^verbatim>\<open>pop\<close>: index \<open>idx\<close> receives the element at
  \<open>idx + 1\<close>, which the loop has not yet written, and the last index receives a copy of
  the popped head with \<^verbatim>\<open>isHead = false\<close>.
\<close>

definition shiftBody :: "Coordinate list \<Rightarrow> Coordinate \<Rightarrow> Coordinate list" where
  "shiftBody coords snakeHead =
     map (\<lambda>idx. if idx = length coords - 1 then snakeHead\<lparr>isHead := Some False\<rparr>
                 else coords ! (idx + 1))
         [0..<length coords]"

fun stepHead :: "Direction \<Rightarrow> Coordinate \<Rightarrow> Coordinate" where
  "stepHead UP snakeHead = snakeHead\<lparr>row := row snakeHead - 1\<rparr>"
| "stepHead DOWN snakeHead = snakeHead\<lparr>row := row snakeHead + 1\<rparr>"
| "stepHead RIGHT snakeHead = snakeHead\<lparr>col := col snakeHead + 1\<rparr>"
| "stepHead LEFT snakeHead = snakeHead\<lparr>col := col snakeHead - 1\<rparr>"

definition collisionCheck :: "Coordinate \<Rightarrow> App \<Rightarrow> bool" where
  "collisionCheck snakeHead s =
     (if col snakeHead \<ge> COLS \<or> row snakeHead \<ge> ROWS \<or> col snakeHead < 0 \<or> row snakeHead < 0
      then True
      else if coordsKey (row snakeHead) (col snakeHead) \<in> snakeCoordinatesMap s
      then True
      else False)"

text \<open>
  \<^verbatim>\<open>moveSnake\<close> works on the array of \<^verbatim>\<open>snakeCoordinates.current\<close> in place, so the
  record holds the popped and shifted array from the shift on, also when the function
  returns at the collision or when the food placement throws. \<^verbatim>\<open>snakeTail\<close> and
  \<^verbatim>\<open>snakeHead\<close> are the same object when the array has one element, and then
  \<^verbatim>\<open>snakeTail\<close> is read after the step has changed it; in every other case the elements
  of the array are separate objects. The guard at the top reads the captured value.
\<close>

definition moveSnake :: "(nat \<Rightarrow> real) \<Rightarrow> nat \<Rightarrow> bool \<Rightarrow> App \<Rightarrow> result" where
  "moveSnake random frames captured s =
     (if captured then Inr s
      else
        let s1 = s\<lparr>isPlaying := isPlaying s + 1\<rparr>;
            coords = snakeCoordinates s1
        in if coords = [] then Inr s1
           else
             let snakeHead = last coords;
                 popped = butlast coords;
                 currentDirection = direction s1;
                 foodConsumed = (row snakeHead = row (foodCoords s1) \<and>
                                 col snakeHead = col (foodCoords s1));
                 s2 = s1\<lparr>snakeCoordinates := shiftBody popped snakeHead\<rparr>;
                 movedHead = stepHead currentDirection snakeHead;
                 snakeTail = (if popped = [] then movedHead else hd coords)
             in case (if foodConsumed
                      then populateFoodBall random frames (s2\<lparr>points := points s2 + 10\<rparr>)
                      else Inr s2) of
                  Inl thrown \<Rightarrow> Inl thrown
                | Inr s3 \<Rightarrow>
                    if collisionCheck movedHead s3 then Inr (stopGame s3)
                    else
                      let pushed = snakeCoordinates s3 @ [movedHead]
                      in Inr (syncSnakeCoordinatesMap
                                (s3\<lparr>snakeCoordinates :=
                                      (if foodConsumed then snakeTail # pushed else pushed)\<rparr>)))"

subsection \<open>Events\<close>

text \<open>
  What can happen to a mounted component: a click on the button that the render shows
  (START while the game is not over and no tick is counted, STOP while the game is not
  over and ticks are counted, PLAY AGAIN while the game is over), a key or a direction
  button, and the callback of a timer that has not been cleared. An error thrown by a
  handler or by a callback leaves the component mounted with the session as the throw
  left it; an error thrown by the mount effect leaves no session. \<open>fire\<close> is \<open>None\<close> for
  an event that cannot happen in the session.
\<close>

datatype Event = ClickStart | ClickStop | ClickPlayAgain | KeyDown string | TimerTick nat

fun sessionAfter :: "result \<Rightarrow> App" where
  "sessionAfter (Inl (thrown, s)) = s"
| "sessionAfter (Inr s) = s"

fun fire :: "(nat \<Rightarrow> real) \<Rightarrow> nat \<Rightarrow> Event \<Rightarrow> App \<Rightarrow> App option" where
  "fire random frames ClickStart s =
     (if \<not> gameOver s \<and> isPlaying s = 0
      then Some (sessionAfter (startGame random frames (gameOver s) s))
      else None)"
| "fire random frames ClickStop s =
     (if \<not> gameOver s \<and> isPlaying s \<noteq> 0 then Some (stopGame s) else None)"
| "fire random frames ClickPlayAgain s =
     (if gameOver s then Some (sessionAfter (resetGame random frames s)) else None)"
| "fire random frames (KeyDown k) s = Some (handleDirectionChange k s)"
| "fire random frames (TimerTick interval) s =
     (case map_of (intervals s) interval of
        None \<Rightarrow> None
      | Some captured \<Rightarrow> Some (sessionAfter (moveSnake random frames captured s)))"

fun run :: "(nat \<Rightarrow> real) \<Rightarrow> nat \<Rightarrow> Event list \<Rightarrow> App \<Rightarrow> App option" where
  "run random frames [] s = Some s"
| "run random frames (e # es) s =
     (case fire random frames e s of None \<Rightarrow> None | Some s' \<Rightarrow> run random frames es s')"

definition play :: "(nat \<Rightarrow> real) \<Rightarrow> nat \<Rightarrow> Event list \<Rightarrow> App option" where
  "play random frames es =
     (case mount random frames of Inl thrown \<Rightarrow> None | Inr s \<Rightarrow> run random frames es s)"

subsection \<open>Auxiliary notions for the statements\<close>

text \<open>The value of a decimal digit, to read a printed number back.\<close>

definition digitValue :: "char \<Rightarrow> nat" where
  "digitValue ch =
     (if ch = CHR ''0'' then 0 else if ch = CHR ''1'' then 1 else if ch = CHR ''2'' then 2
      else if ch = CHR ''3'' then 3 else if ch = CHR ''4'' then 4 else if ch = CHR ''5'' then 5
      else if ch = CHR ''6'' then 6 else if ch = CHR ''7'' then 7 else if ch = CHR ''8'' then 8
      else 9)"

text \<open>The key and the cell of a coordinate, and the cells inside the grid.\<close>

definition keyOf :: "Coordinate \<Rightarrow> string" where
  "keyOf coord = coordsKey (row coord) (col coord)"

definition cellOf :: "Coordinate \<Rightarrow> int \<times> int" where
  "cellOf coord = (row coord, col coord)"

definition inBounds :: "Coordinate \<Rightarrow> bool" where
  "inBounds coord \<longleftrightarrow> 0 \<le> row coord \<and> row coord < ROWS \<and> 0 \<le> col coord \<and> col coord < COLS"


text \<open>
  The coordinate that \<^verbatim>\<open>populateFoodBall\<close> samples with the calls \<open>k\<close> and \<open>k + 1\<close> of
  \<^verbatim>\<open>Math.random()\<close>, and whether attempt number \<open>n\<close> from session \<open>s\<close> on hits the
  occupied set.
\<close>

definition sampleAt :: "(nat \<Rightarrow> real) \<Rightarrow> nat \<Rightarrow> Coordinate" where
  "sampleAt random k =
     \<lparr>row = \<lfloor>toDouble (random k * of_int ROWS)\<rfloor>,
      col = \<lfloor>toDouble (random (k + 1) * of_int COLS)\<rfloor>,
      isHead = None\<rparr>"

definition occupiedAt :: "(nat \<Rightarrow> real) \<Rightarrow> App \<Rightarrow> nat \<Rightarrow> bool" where
  "occupiedAt random s n \<longleftrightarrow>
     keyOf (sampleAt random (randomCalls s + 2 * n)) \<in> snakeCoordinatesMap s"

text \<open>The head that a tick tries: the last element of the array, stepped.\<close>

definition candidateHead :: "App \<Rightarrow> Coordinate" where
  "candidateHead s = stepHead (direction s) (last (snakeCoordinates s))"

text \<open>
  The occupied set agrees with the array, and the properties of the array that a tick
  of a running session keeps: distinct cells inside the grid, at least two elements and an
  occupied set that agrees.
\<close>

definition consistent :: "App \<Rightarrow> bool" where
  "consistent s \<longleftrightarrow> snakeCoordinatesMap s = keyOf ` set (snakeCoordinates s)"

definition wellFormed :: "App \<Rightarrow> bool" where
  "wellFormed s \<longleftrightarrow>
     distinct (map cellOf (snakeCoordinates s)) \<and>
     list_all inBounds (snakeCoordinates s) \<and>
     2 \<le> length (snakeCoordinates s) \<and> consistent s"

text \<open>The exact opposite of a direction.\<close>

fun opposite :: "Direction \<Rightarrow> Direction" where
  "opposite UP = DOWN"
| "opposite DOWN = UP"
| "opposite LEFT = RIGHT"
| "opposite RIGHT = LEFT"

text \<open>
  Sequences of random numbers for concrete sessions, all of them binary fractions, whose
  products with 48 are doubles. With \<open>steadyRandom\<close> every sample is the cell \<open>(40, 40)\<close>
  (\<open>27 / 32 * 48 = 40.5\<close>); with \<open>foodAheadRandom\<close> the first sample is \<open>(0, 10)\<close>, the cell
  in front of the default snake, and the later ones are \<open>(40, 40)\<close>; with
  \<open>foodOnHeadRandom\<close> the samples are \<open>(0, 10)\<close>, then \<open>(0, 11)\<close>, then \<open>(0, 0)\<close>; with
  \<open>foodTwoAheadRandom\<close> they are \<open>(0, 11)\<close>, then \<open>(0, 0)\<close>. \<open>engineFrames\<close> is a number of
  frames of the size that engines have.
\<close>

definition steadyRandom :: "nat \<Rightarrow> real" where
  "steadyRandom i = 27 / 32"

definition foodAheadRandom :: "nat \<Rightarrow> real" where
  "foodAheadRandom i = (if i = 0 then 0 else if i = 1 then 7 / 32 else 27 / 32)"

definition foodOnHeadRandom :: "nat \<Rightarrow> real" where
  "foodOnHeadRandom i = (if i = 1 then 7 / 32 else if i = 3 then 15 / 64 else 0)"

definition foodTwoAheadRandom :: "nat \<Rightarrow> real" where
  "foodTwoAheadRandom i = (if i = 1 then 15 / 64 else 0)"

definition engineFrames :: nat where
  "engineFrames = 7800"

text \<open>
  Concrete sessions, each named by the events that lead to it. In \<open>ringSession\<close> the
  snake has turned down and left and its head, at \<open>(1, 5)\<close> and heading up, is below its
  tail at \<open>(0, 5)\<close>. \<open>upSession\<close> is the started default snake heading up into the wall,
  \<open>crashedSession\<close> the same one tick later. In \<open>aheadSession\<close> the food is the cell in
  front of the head. In \<open>onFoodSession\<close> the head has reached the food, and in
  \<open>onFoodUpSession\<close> it has reached the food and heads up into the wall. In
  \<open>leakedSession\<close> START was clicked twice before the first tick, and the first tick has
  run into the wall: the game is over, \<^verbatim>\<open>stopGame\<close> has cleared the second timer, which
  \<^verbatim>\<open>timer.current\<close> held, and the first timer is still there.
\<close>

definition ringSession :: App where
  "ringSession =
     the (play steadyRandom engineFrames
            [ClickStart, KeyDown ''ArrowDown'', TimerTick 1, KeyDown ''ArrowLeft'',
             TimerTick 1, TimerTick 1, TimerTick 1, TimerTick 1, KeyDown ''ArrowUp''])"

definition upSession :: App where
  "upSession = the (play steadyRandom engineFrames [ClickStart, KeyDown ''ArrowUp''])"

definition crashedSession :: App where
  "crashedSession =
     the (play steadyRandom engineFrames [ClickStart, KeyDown ''ArrowUp'', TimerTick 1])"

definition aheadSession :: App where
  "aheadSession = the (play foodAheadRandom engineFrames [ClickStart])"

definition onFoodSession :: App where
  "onFoodSession = the (play foodOnHeadRandom engineFrames [ClickStart, TimerTick 1])"

definition onFoodUpSession :: App where
  "onFoodUpSession =
     the (play foodAheadRandom engineFrames [ClickStart, TimerTick 1, KeyDown ''ArrowUp''])"

definition leakedSession :: App where
  "leakedSession =
     the (play steadyRandom engineFrames
            [ClickStart, ClickStart, KeyDown ''ArrowUp'', TimerTick 1])"

section \<open>Properties\<close>

declare digits.simps [simp del]

subsection \<open>Keys identify cells\<close>

lemma digitValue_all: "\<forall>n \<in> set [0..<10]. digitValue (''0123456789'' ! n) = n"
  by (simp add: upt_rec digitValue_def)

lemma digitValue_nth: "n < 10 \<Longrightarrow> digitValue (''0123456789'' ! n) = n"
  using digitValue_all by simp

lemma digit_in_set: "n < 10 \<Longrightarrow> ''0123456789'' ! n \<in> set ''0123456789''"
  by (rule nth_mem) simp

lemma set_digits: "set (digits n) \<subseteq> set ''0123456789''"
proof (induction n rule: digits.induct)
  case (1 n)
  show ?case
  proof (cases "n < 10")
    case True
    then show ?thesis using digit_in_set [of n] by (subst digits.simps) simp
  next
    case False
    have "n mod 10 < 10" by simp
    then show ?thesis
      using 1 False digit_in_set [of "n mod 10"] by (subst digits.simps) simp
  qed
qed

lemma decode_digits: "foldl (\<lambda>a ch. 10 * a + digitValue ch) 0 (digits n) = n"
proof (induction n rule: digits.induct)
  case (1 n)
  show ?case
  proof (cases "n < 10")
    case True
    then show ?thesis by (subst digits.simps) (simp add: digitValue_nth)
  next
    case False
    then show ?thesis using 1 by (subst digits.simps) (simp add: digitValue_nth)
  qed
qed

lemma digits_inj: "digits m = digits n \<Longrightarrow> m = n"
  by (metis decode_digits)

lemma digits_no_minus: "CHR ''-'' \<notin> set (digits n)"
  using set_digits [of n] by auto

lemma digits_no_colon: "CHR '':'' \<notin> set (digits n)"
  using set_digits [of n] by auto

lemma digits_not_Nil: "digits n \<noteq> []"
  by (subst digits.simps) simp

lemma numberToString_inj:
  assumes eq: "numberToString i = numberToString j"
  shows "i = j"
proof -
  have first: "hd (digits n) \<noteq> CHR ''-''" for n
    using digits_no_minus digits_not_Nil by (metis hd_in_set)
  show ?thesis
  proof (cases "i < 0")
    case i_neg: True
    show ?thesis
    proof (cases "j < 0")
      case True
      with i_neg eq have "digits (nat (- i)) = digits (nat (- j))"
        by (simp add: numberToString_def)
      then have "nat (- i) = nat (- j)" by (rule digits_inj)
      with True i_neg show ?thesis by simp
    next
      case False
      with i_neg eq have "CHR ''-'' # digits (nat (- i)) = digits (nat j)"
        by (simp add: numberToString_def)
      then have "hd (digits (nat j)) = CHR ''-''" by (metis list.sel(1))
      with first show ?thesis by blast
    qed
  next
    case i_pos: False
    show ?thesis
    proof (cases "j < 0")
      case True
      with i_pos eq have "digits (nat i) = CHR ''-'' # digits (nat (- j))"
        by (simp add: numberToString_def)
      then have "hd (digits (nat i)) = CHR ''-''" by (metis list.sel(1))
      with first show ?thesis by blast
    next
      case False
      with i_pos eq have "digits (nat i) = digits (nat j)"
        by (simp add: numberToString_def)
      then have "nat i = nat j" by (rule digits_inj)
      with False i_pos show ?thesis by simp
    qed
  qed
qed

lemma numberToString_no_colon: "CHR '':'' \<notin> set (numberToString i)"
  using digits_no_colon by (simp add: numberToString_def)

lemma coordsKey_eq_iff: "coordsKey r c = coordsKey r' c' \<longleftrightarrow> r = r' \<and> c = c'"
proof
  assume "coordsKey r c = coordsKey r' c'"
  then have "numberToString r @ CHR '':'' # numberToString c
           = numberToString r' @ CHR '':'' # numberToString c'"
    by (simp add: coordsKey_def)
  then have "numberToString r = numberToString r' \<and> numberToString c = numberToString c'"
    using numberToString_no_colon by (simp add: append_Cons_eq_iff)
  then show "r = r' \<and> c = c'" using numberToString_inj by blast
qed simp

subsection \<open>Double precision\<close>

lemma ulpFrom_numeral:
  "ulpFrom (numeral k) b u y = (if b \<le> y then u else ulpFrom (pred_numeral k) (b / 2) (u / 2) y)"
  by (simp add: numeral_eq_Suc)

lemma toDouble_0: "toDouble 0 = 0"
  by (simp add: toDouble_def roundHalfEven_def Let_def)

lemma floor_double_81_2: "\<lfloor>toDouble (81 / 2)\<rfloor> = 40"
  by (simp add: toDouble_def ulpFrom_numeral roundHalfEven_def Let_def)

lemma floor_double_steady: "\<lfloor>toDouble (27 / 32 * 48)\<rfloor> = 40"
  by (simp add: toDouble_def ulpFrom_numeral roundHalfEven_def Let_def)

lemma floor_double_21_2: "\<lfloor>toDouble (21 / 2)\<rfloor> = 10"
  by (simp add: toDouble_def ulpFrom_numeral roundHalfEven_def Let_def)

lemma floor_double_45_4: "\<lfloor>toDouble (45 / 4)\<rfloor> = 11"
  by (simp add: toDouble_def ulpFrom_numeral roundHalfEven_def Let_def)

text \<open>
  The double product and the exact product differ: for the double just below \<open>17 / 24\<close> the
  exact product is below 34 and the double product is 34.
\<close>

lemma double_product_rounds_to_34: "\<lfloor>toDouble (6380099472108202 / 2 ^ 53 * 48)\<rfloor> = 34"
  by (simp add: toDouble_def ulpFrom_numeral roundHalfEven_def Let_def)

lemma exact_product_below_34: "\<lfloor>(6380099472108202 / 2 ^ 53 * 48 :: real)\<rfloor> = 33"
  by simp








subsection \<open>The shift and food placement\<close>

lemma shiftBody_Nil: "shiftBody [] h = []"
  by (simp add: shiftBody_def)

lemma shiftBody_eq:
  assumes "coords \<noteq> []"
  shows "shiftBody coords h = tl coords @ [h\<lparr>isHead := Some False\<rparr>]"
proof (rule nth_equalityI)
  show "length (shiftBody coords h) = length (tl coords @ [h\<lparr>isHead := Some False\<rparr>])"
    using assms by (simp add: shiftBody_def)
next
  fix i assume "i < length (shiftBody coords h)"
  then have i: "i < length coords" by (simp add: shiftBody_def)
  then show "shiftBody coords h ! i = (tl coords @ [h\<lparr>isHead := Some False\<rparr>]) ! i"
    by (auto simp: shiftBody_def nth_append nth_tl)
qed

lemma keyOf_eq_iff: "keyOf a = keyOf b \<longleftrightarrow> cellOf a = cellOf b"
  by (simp add: keyOf_def cellOf_def coordsKey_eq_iff)

lemma occupiedAt_shift:
  "occupiedAt random (s\<lparr>randomCalls := randomCalls s + 2\<rparr>) n = occupiedAt random s (Suc n)"
  by (simp add: occupiedAt_def add.commute add.left_commute)

lemma populateFoodBall_Suc:
  "populateFoodBall random (Suc frames) s =
     (if occupiedAt random s 0
      then populateFoodBall random frames (s\<lparr>randomCalls := randomCalls s + 2\<rparr>)
      else Inr (s\<lparr>randomCalls := randomCalls s + 2, foodCoords := sampleAt random (randomCalls s)\<rparr>))"
  by (simp add: occupiedAt_def keyOf_def sampleAt_def Let_def)

lemma populateFoodBall_numeral:
  "populateFoodBall random (numeral k) s =
     (if occupiedAt random s 0
      then populateFoodBall random (pred_numeral k) (s\<lparr>randomCalls := randomCalls s + 2\<rparr>)
      else Inr (s\<lparr>randomCalls := randomCalls s + 2, foodCoords := sampleAt random (randomCalls s)\<rparr>))"
  using populateFoodBall_Suc [of random "pred_numeral k" s] by (simp add: numeral_eq_Suc)

text \<open>Food placement, in full: the first free sample within the frames, or the throw.\<close>

lemma pfb_found:
  "n < frames \<Longrightarrow> \<forall>m<n. occupiedAt random s m \<Longrightarrow> \<not> occupiedAt random s n \<Longrightarrow>
   populateFoodBall random frames s =
     Inr (s\<lparr>randomCalls := randomCalls s + 2 * n + 2,
            foodCoords := sampleAt random (randomCalls s + 2 * n)\<rparr>)"
proof (induction n arbitrary: s frames)
  case 0
  then obtain f where "frames = Suc f" by (cases frames) auto
  with 0 show ?case by (simp add: populateFoodBall_Suc del: populateFoodBall.simps)
next
  case (Suc n)
  then obtain f where f: "frames = Suc f" and nf: "n < f" by (cases frames) auto
  let ?s1 = "s\<lparr>randomCalls := randomCalls s + 2\<rparr>"
  from Suc.prems have occ0: "occupiedAt random s 0" by blast
  have "\<forall>m<n. occupiedAt random ?s1 m"
    unfolding occupiedAt_shift using Suc.prems(2) by auto
  moreover have "\<not> occupiedAt random ?s1 n"
    unfolding occupiedAt_shift using Suc.prems(3) .
  ultimately have "populateFoodBall random f ?s1 =
     Inr (?s1\<lparr>randomCalls := randomCalls ?s1 + 2 * n + 2,
             foodCoords := sampleAt random (randomCalls ?s1 + 2 * n)\<rparr>)"
    using nf by (intro Suc.IH)
  then show ?case using occ0 f
    by (simp add: populateFoodBall_Suc add.commute add.left_commute del: populateFoodBall.simps)
qed

lemma pfb_thrown:
  "\<forall>m<frames. occupiedAt random s m \<Longrightarrow>
   populateFoodBall random frames s =
     Inl (RangeError, s\<lparr>randomCalls := randomCalls s + 2 * frames\<rparr>)"
proof (induction frames arbitrary: s)
  case 0
  then show ?case by simp
next
  case (Suc frames)
  let ?s1 = "s\<lparr>randomCalls := randomCalls s + 2\<rparr>"
  from Suc.prems have occ0: "occupiedAt random s 0" by blast
  have "\<forall>m<frames. occupiedAt random ?s1 m"
    unfolding occupiedAt_shift using Suc.prems by auto
  then have "populateFoodBall random frames ?s1 =
     Inl (RangeError, ?s1\<lparr>randomCalls := randomCalls ?s1 + 2 * frames\<rparr>)"
    by (rule Suc.IH)
  then show ?case using occ0
    by (simp add: populateFoodBall_Suc add.commute add.left_commute del: populateFoodBall.simps)
qed

lemma first_free:
  assumes "n < frames" and "\<not> occupiedAt random s n"
  obtains k where "k < frames" and "\<forall>m<k. occupiedAt random s m" and "\<not> occupiedAt random s k"
proof -
  define k where "k = (LEAST k. \<not> occupiedAt random s k)"
  have free: "\<not> occupiedAt random s k" unfolding k_def using assms(2) by (rule LeastI)
  have occ: "\<forall>m<k. occupiedAt random s m" unfolding k_def using not_less_Least by blast
  have "k \<le> n" unfolding k_def using assms(2) by (rule Least_le)
  with assms(1) have "k < frames" by simp
  with occ free that show thesis by blast
qed

lemma pfb_cases:
  obtains (found) k where "k < frames" and "\<not> occupiedAt random s k"
      and "populateFoodBall random frames s =
             Inr (s\<lparr>randomCalls := randomCalls s + 2 * k + 2,
                    foodCoords := sampleAt random (randomCalls s + 2 * k)\<rparr>)"
  | (thrown) "\<forall>m<frames. occupiedAt random s m"
      and "populateFoodBall random frames s =
             Inl (RangeError, s\<lparr>randomCalls := randomCalls s + 2 * frames\<rparr>)"
proof (cases "\<exists>n<frames. \<not> occupiedAt random s n")
  case True
  then obtain n where "n < frames" "\<not> occupiedAt random s n" by blast
  then obtain k where k: "k < frames" "\<forall>m<k. occupiedAt random s m" "\<not> occupiedAt random s k"
    by (rule first_free)
  from pfb_found [OF k] k(1,3) found show thesis by blast
next
  case False
  then have all: "\<forall>m<frames. occupiedAt random s m" by blast
  from pfb_thrown [OF all] all thrown show thesis by blast
qed

lemma pfb_returns:
  assumes "n < frames" and "\<not> occupiedAt random s n"
  shows "\<exists>s'. populateFoodBall random frames s = Inr s'"
proof (cases rule: pfb_cases [of frames random s])
  case (found k)
  then show ?thesis by blast
next
  case thrown
  with assms show ?thesis by blast
qed

lemma pfb_result:
  assumes "populateFoodBall random frames s = Inr s'"
  shows "s' = s\<lparr>randomCalls := randomCalls s', foodCoords := foodCoords s'\<rparr>"
    and "keyOf (foodCoords s') \<notin> snakeCoordinatesMap s"
    and "\<exists>k. foodCoords s' = sampleAt random k"
proof -
  have "s' = s\<lparr>randomCalls := randomCalls s', foodCoords := foodCoords s'\<rparr> \<and>
        keyOf (foodCoords s') \<notin> snakeCoordinatesMap s \<and>
        (\<exists>k. foodCoords s' = sampleAt random k)"
  proof (cases rule: pfb_cases [of frames random s])
    case (found k)
    with assms have "s' = s\<lparr>randomCalls := randomCalls s + 2 * k + 2,
                    foodCoords := sampleAt random (randomCalls s + 2 * k)\<rparr>" by simp
    with found(2) show ?thesis by (auto simp: occupiedAt_def)
  next
    case thrown
    with assms show ?thesis by simp
  qed
  then show "s' = s\<lparr>randomCalls := randomCalls s', foodCoords := foodCoords s'\<rparr>"
    and "keyOf (foodCoords s') \<notin> snakeCoordinatesMap s"
    and "\<exists>k. foodCoords s' = sampleAt random k" by blast+
qed

lemma occupiedAt_cong:
  "randomCalls u = randomCalls s \<Longrightarrow> snakeCoordinatesMap u = snakeCoordinatesMap s \<Longrightarrow>
   occupiedAt random u = occupiedAt random s"
  by (simp add: occupiedAt_def fun_eq_iff)

text \<open>Food placement does not look at the other fields.\<close>

lemma pfb_cong:
  assumes rc: "randomCalls u = randomCalls s"
    and occ: "snakeCoordinatesMap u = snakeCoordinatesMap s"
  shows "populateFoodBall random frames u =
         (case populateFoodBall random frames s of
            Inl (thrown, f) \<Rightarrow> Inl (thrown, u\<lparr>randomCalls := randomCalls f\<rparr>)
          | Inr f \<Rightarrow> Inr (u\<lparr>randomCalls := randomCalls f, foodCoords := foodCoords f\<rparr>))"
proof (cases rule: pfb_cases [of frames random s])
  case (found k)
  from found(1,2) obtain j
    where j: "j < frames" "\<forall>m<j. occupiedAt random s m" "\<not> occupiedAt random s j"
    by (rule first_free)
  note eq = occupiedAt_cong [OF rc occ]
  from j have "j < frames" "\<forall>m<j. occupiedAt random u m" "\<not> occupiedAt random u j"
    by (simp_all add: eq)
  from pfb_found [OF this] pfb_found [OF j] show ?thesis using rc by simp
next
  case thrown
  note eq = occupiedAt_cong [OF rc occ]
  from thrown(1) have "\<forall>m<frames. occupiedAt random u m" by (simp add: eq)
  from pfb_thrown [OF this] thrown(2) show ?thesis using rc by simp
qed

subsection \<open>The two kinds of tick\<close>

lemma keyOf_isHead [simp]: "keyOf (c\<lparr>isHead := x\<rparr>) = keyOf c"
  by (simp add: keyOf_def)

lemma cellOf_isHead [simp]: "cellOf (c\<lparr>isHead := x\<rparr>) = cellOf c"
  by (simp add: cellOf_def)

lemma inBounds_isHead [simp]: "inBounds (c\<lparr>isHead := x\<rparr>) = inBounds c"
  by (simp add: inBounds_def)

lemma keyOf_image_iff: "keyOf c \<in> keyOf ` set coords \<longleftrightarrow> cellOf c \<in> set (map cellOf coords)"
  by (auto simp: keyOf_eq_iff image_iff)

lemma sync_consistent: "consistent (syncSnakeCoordinatesMap s)"
  by (auto simp: consistent_def syncSnakeCoordinatesMap_def keyOf_def)


lemma sync_fields [simp]:
  "snakeCoordinates (syncSnakeCoordinatesMap s) = snakeCoordinates s"
  "direction (syncSnakeCoordinatesMap s) = direction s"
  "foodCoords (syncSnakeCoordinatesMap s) = foodCoords s"
  "points (syncSnakeCoordinatesMap s) = points s"
  "gameOver (syncSnakeCoordinatesMap s) = gameOver s"
  "isPlaying (syncSnakeCoordinatesMap s) = isPlaying s"
  "timer (syncSnakeCoordinatesMap s) = timer s"
  "randomCalls (syncSnakeCoordinatesMap s) = randomCalls s"
  "intervals (syncSnakeCoordinatesMap s) = intervals s"
  by (simp_all add: syncSnakeCoordinatesMap_def)

lemma stopGame_fields [simp]:
  "snakeCoordinates (stopGame s) = snakeCoordinates s"
  "direction (stopGame s) = direction s"
  "foodCoords (stopGame s) = foodCoords s"
  "points (stopGame s) = points s"
  "gameOver (stopGame s) = True"
  "isPlaying (stopGame s) = 0"
  "snakeCoordinatesMap (stopGame s) = snakeCoordinatesMap s"
  "randomCalls (stopGame s) = randomCalls s"
  by (simp_all add: stopGame_def clearInterval_def Let_def split: option.split)

lemma collisionCheck_iff:
  "collisionCheck h s \<longleftrightarrow> \<not> inBounds h \<or> keyOf h \<in> snakeCoordinatesMap s"
  by (auto simp: collisionCheck_def inBounds_def keyOf_def)

lemma shifted_cells:
  assumes "coords \<noteq> []"
  shows "map cellOf (shiftBody (butlast coords) (last coords)) = tl (map cellOf coords)"
proof (cases "butlast coords = []")
  case True
  with assms have "length coords = 1" by (cases coords) (auto split: if_splits)
  with True show ?thesis by (cases coords) (auto simp: shiftBody_Nil)
next
  case False
  then obtain a ys where c: "coords = a # ys" and ys: "ys \<noteq> []"
    by (cases coords) (auto split: if_splits)
  have "tl (butlast coords) @ [last coords] = ys"
    using c ys by simp
  then have "map cellOf (tl (butlast coords) @ [last coords]) = map cellOf ys" by simp
  then show ?thesis using False c by (simp add: shiftBody_eq)
qed

lemma shifted_length:
  "length (shiftBody popped h) = length popped"
  by (simp add: shiftBody_def)

text \<open>A tick without consumption.\<close>

lemma moveSnake_plain:
  assumes "snakeCoordinates s \<noteq> []"
    and "cellOf (last (snakeCoordinates s)) \<noteq> cellOf (foodCoords s)"
  shows "moveSnake random frames False s =
     Inr (let s2 = s\<lparr>isPlaying := isPlaying s + 1,
                     snakeCoordinates :=
                       shiftBody (butlast (snakeCoordinates s)) (last (snakeCoordinates s))\<rparr>
          in if collisionCheck (candidateHead s) s then stopGame s2
             else syncSnakeCoordinatesMap
                    (s2\<lparr>snakeCoordinates := snakeCoordinates s2 @ [candidateHead s]\<rparr>))"
proof -
  have same: "collisionCheck h (s\<lparr>isPlaying := a, snakeCoordinates := b\<rparr>) = collisionCheck h s"
    for h a b by (simp add: collisionCheck_def)
  from assms(2) have fc: "(row (last (snakeCoordinates s)) = row (foodCoords s) \<and>
                   col (last (snakeCoordinates s)) = col (foodCoords s)) = False"
    by (simp add: cellOf_def)
  from assms(1) show ?thesis
    by (simp add: moveSnake_def Let_def candidateHead_def same fc)
qed

text \<open>A tick with consumption.\<close>

lemma moveSnake_consumed:
  assumes "snakeCoordinates s \<noteq> []"
    and "cellOf (last (snakeCoordinates s)) = cellOf (foodCoords s)"
  shows "moveSnake random frames False s =
     (case populateFoodBall random frames s of
        Inl (thrown, f) \<Rightarrow>
          Inl (thrown,
               s\<lparr>isPlaying := isPlaying s + 1,
                 snakeCoordinates :=
                   shiftBody (butlast (snakeCoordinates s)) (last (snakeCoordinates s)),
                 points := points s + 10,
                 randomCalls := randomCalls f\<rparr>)
      | Inr f \<Rightarrow>
          Inr (let s3 = s\<lparr>isPlaying := isPlaying s + 1,
                          snakeCoordinates :=
                            shiftBody (butlast (snakeCoordinates s)) (last (snakeCoordinates s)),
                          points := points s + 10,
                          randomCalls := randomCalls f, foodCoords := foodCoords f\<rparr>
               in if collisionCheck (candidateHead s) s then stopGame s3
                  else syncSnakeCoordinatesMap
                         (s3\<lparr>snakeCoordinates :=
                               (if butlast (snakeCoordinates s) = [] then candidateHead s
                                else hd (snakeCoordinates s))
                               # snakeCoordinates s3 @ [candidateHead s]\<rparr>)))"
proof -
  let ?u = "s\<lparr>isPlaying := isPlaying s + 1,
              snakeCoordinates :=
                shiftBody (butlast (snakeCoordinates s)) (last (snakeCoordinates s)),
              points := points s + 10\<rparr>"
  have same: "collisionCheck h (s\<lparr>isPlaying := a, snakeCoordinates := b, points := c, randomCalls := d, foodCoords := e\<rparr>) = collisionCheck h s"
    for h a b c d e by (simp add: collisionCheck_def)
  have pfb: "populateFoodBall random frames ?u =
         (case populateFoodBall random frames s of
            Inl (thrown, f) \<Rightarrow> Inl (thrown, ?u\<lparr>randomCalls := randomCalls f\<rparr>)
          | Inr f \<Rightarrow> Inr (?u\<lparr>randomCalls := randomCalls f, foodCoords := foodCoords f\<rparr>))"
    by (rule pfb_cong) simp_all
  from assms(2) have fc: "(row (last (snakeCoordinates s)) = row (foodCoords s) \<and>
                   col (last (snakeCoordinates s)) = col (foodCoords s)) = True"
    by (simp add: cellOf_def)
  show ?thesis
  proof (cases "populateFoodBall random frames s")
    case (Inl a)
    then show ?thesis using assms(1)
      by (cases a) (simp add: moveSnake_def Let_def candidateHead_def same pfb fc)
  next
    case (Inr f)
    then show ?thesis using assms(1)
      by (simp add: moveSnake_def Let_def candidateHead_def same pfb fc)
  qed
qed

text \<open>What a tick that returns has done.\<close>

lemma consumed_returned:
  assumes ne: "snakeCoordinates s \<noteq> []"
    and eaten: "cellOf (last (snakeCoordinates s)) = cellOf (foodCoords s)"
    and step: "moveSnake random frames False s = Inr s'"
  obtains f where "populateFoodBall random frames s = Inr f"
    and "s' = (let s3 = s\<lparr>isPlaying := isPlaying s + 1,
                          snakeCoordinates :=
                            shiftBody (butlast (snakeCoordinates s)) (last (snakeCoordinates s)),
                          points := points s + 10,
                          randomCalls := randomCalls f, foodCoords := foodCoords f\<rparr>
               in if collisionCheck (candidateHead s) s then stopGame s3
                  else syncSnakeCoordinatesMap
                         (s3\<lparr>snakeCoordinates :=
                               (if butlast (snakeCoordinates s) = [] then candidateHead s
                                else hd (snakeCoordinates s))
                               # snakeCoordinates s3 @ [candidateHead s]\<rparr>))"
proof (cases "populateFoodBall random frames s")
  case (Inl a)
  with step [unfolded moveSnake_consumed [OF ne eaten]] have False by (cases a) simp
  then show ?thesis ..
next
  case (Inr f)
  with step [unfolded moveSnake_consumed [OF ne eaten]] that [OF Inr] show ?thesis by simp
qed

lemma moveSnake_collided:
  assumes ne: "snakeCoordinates s \<noteq> []"
    and hit: "collisionCheck (candidateHead s) s"
    and step: "moveSnake random frames False s = Inr s'"
  shows "snakeCoordinates s' =
           shiftBody (butlast (snakeCoordinates s)) (last (snakeCoordinates s))"
    and "gameOver s'"
    and "snakeCoordinatesMap s' = snakeCoordinatesMap s"
    and "direction s' = direction s"
    and "isPlaying s' = 0"
proof -
  have "snakeCoordinates s' =
           shiftBody (butlast (snakeCoordinates s)) (last (snakeCoordinates s)) \<and>
        gameOver s' \<and> snakeCoordinatesMap s' = snakeCoordinatesMap s \<and>
        direction s' = direction s \<and> isPlaying s' = 0"
  proof (cases "cellOf (last (snakeCoordinates s)) = cellOf (foodCoords s)")
    case True
    from ne True step obtain f where "populateFoodBall random frames s = Inr f"
      and "s' = (let s3 = s\<lparr>isPlaying := isPlaying s + 1,
                          snakeCoordinates :=
                            shiftBody (butlast (snakeCoordinates s)) (last (snakeCoordinates s)),
                          points := points s + 10,
                          randomCalls := randomCalls f, foodCoords := foodCoords f\<rparr>
               in if collisionCheck (candidateHead s) s then stopGame s3
                  else syncSnakeCoordinatesMap
                         (s3\<lparr>snakeCoordinates :=
                               (if butlast (snakeCoordinates s) = [] then candidateHead s
                                else hd (snakeCoordinates s))
                               # snakeCoordinates s3 @ [candidateHead s]\<rparr>))"
      by (rule consumed_returned)
    then show ?thesis by (simp add: hit Let_def)
  next
    case False
    from step [unfolded moveSnake_plain [OF ne False]]
    show ?thesis by (auto simp add: hit Let_def)
  qed
  then show "snakeCoordinates s' =
           shiftBody (butlast (snakeCoordinates s)) (last (snakeCoordinates s))"
    and "gameOver s'"
    and "snakeCoordinatesMap s' = snakeCoordinatesMap s"
    and "direction s' = direction s"
    and "isPlaying s' = 0" by simp_all
qed

lemma moveSnake_committed:
  assumes ne: "snakeCoordinates s \<noteq> []"
    and free: "\<not> collisionCheck (candidateHead s) s"
    and step: "moveSnake random frames False s = Inr s'"
  shows "snakeCoordinates s' =
           (if cellOf (last (snakeCoordinates s)) = cellOf (foodCoords s)
            then [if butlast (snakeCoordinates s) = [] then candidateHead s
                  else hd (snakeCoordinates s)]
            else [])
           @ shiftBody (butlast (snakeCoordinates s)) (last (snakeCoordinates s))
           @ [candidateHead s]"
    and "gameOver s' = gameOver s"
    and "consistent s'"
    and "direction s' = direction s"
proof -
  have "snakeCoordinates s' =
           (if cellOf (last (snakeCoordinates s)) = cellOf (foodCoords s)
            then [if butlast (snakeCoordinates s) = [] then candidateHead s
                  else hd (snakeCoordinates s)]
            else [])
           @ shiftBody (butlast (snakeCoordinates s)) (last (snakeCoordinates s))
           @ [candidateHead s] \<and>
        gameOver s' = gameOver s \<and> consistent s' \<and> direction s' = direction s"
  proof (cases "cellOf (last (snakeCoordinates s)) = cellOf (foodCoords s)")
    case True
    from ne True step obtain f where "populateFoodBall random frames s = Inr f"
      and "s' = (let s3 = s\<lparr>isPlaying := isPlaying s + 1,
                          snakeCoordinates :=
                            shiftBody (butlast (snakeCoordinates s)) (last (snakeCoordinates s)),
                          points := points s + 10,
                          randomCalls := randomCalls f, foodCoords := foodCoords f\<rparr>
               in if collisionCheck (candidateHead s) s then stopGame s3
                  else syncSnakeCoordinatesMap
                         (s3\<lparr>snakeCoordinates :=
                               (if butlast (snakeCoordinates s) = [] then candidateHead s
                                else hd (snakeCoordinates s))
                               # snakeCoordinates s3 @ [candidateHead s]\<rparr>))"
      by (rule consumed_returned)
    then show ?thesis using True by (simp add: free Let_def sync_consistent)
  next
    case False
    from step [unfolded moveSnake_plain [OF ne False]]
    show ?thesis using False by (auto simp add: free Let_def sync_consistent)
  qed
  then show "snakeCoordinates s' =
           (if cellOf (last (snakeCoordinates s)) = cellOf (foodCoords s)
            then [if butlast (snakeCoordinates s) = [] then candidateHead s
                  else hd (snakeCoordinates s)]
            else [])
           @ shiftBody (butlast (snakeCoordinates s)) (last (snakeCoordinates s))
           @ [candidateHead s]"
    and "gameOver s' = gameOver s"
    and "consistent s'"
    and "direction s' = direction s" by simp_all
qed

lemma moveSnake_returns:
  assumes ne: "snakeCoordinates s \<noteq> []"
    and fair: "cellOf (last (snakeCoordinates s)) = cellOf (foodCoords s) \<longrightarrow>
               (\<exists>k<frames. \<not> occupiedAt random s k)"
  shows "\<exists>s'. moveSnake random frames False s = Inr s'"
proof (cases "cellOf (last (snakeCoordinates s)) = cellOf (foodCoords s)")
  case True
  with fair obtain k where "k < frames" "\<not> occupiedAt random s k" by blast
  then obtain f where "populateFoodBall random frames s = Inr f" using pfb_returns by blast
  then show ?thesis unfolding moveSnake_consumed [OF ne True] by simp
next
  case False
  show ?thesis unfolding moveSnake_plain [OF ne False] by simp
qed

lemma moveSnake_kept_food:
  assumes ne: "snakeCoordinates s \<noteq> []"
    and plain: "cellOf (last (snakeCoordinates s)) \<noteq> cellOf (foodCoords s)"
    and step: "moveSnake random frames False s = Inr s'"
  shows "points s' = points s" and "foodCoords s' = foodCoords s"
    and "randomCalls s' = randomCalls s"
  using step [unfolded moveSnake_plain [OF ne plain]]
  by (auto simp: Let_def split: if_splits)

lemma moveSnake_new_food:
  assumes ne: "snakeCoordinates s \<noteq> []"
    and eaten: "cellOf (last (snakeCoordinates s)) = cellOf (foodCoords s)"
    and step: "moveSnake random frames False s = Inr s'"
  shows "points s' = points s + 10"
    and "\<exists>f. populateFoodBall random frames s = Inr f \<and> foodCoords s' = foodCoords f \<and>
             randomCalls s' = randomCalls f"
    and "keyOf (foodCoords s') \<notin> snakeCoordinatesMap s"
proof -
  from ne eaten step obtain f where f: "populateFoodBall random frames s = Inr f"
    and eq: "s' = (let s3 = s\<lparr>isPlaying := isPlaying s + 1,
                          snakeCoordinates :=
                            shiftBody (butlast (snakeCoordinates s)) (last (snakeCoordinates s)),
                          points := points s + 10,
                          randomCalls := randomCalls f, foodCoords := foodCoords f\<rparr>
               in if collisionCheck (candidateHead s) s then stopGame s3
                  else syncSnakeCoordinatesMap
                         (s3\<lparr>snakeCoordinates :=
                               (if butlast (snakeCoordinates s) = [] then candidateHead s
                                else hd (snakeCoordinates s))
                               # snakeCoordinates s3 @ [candidateHead s]\<rparr>))"
    by (rule consumed_returned)
  show "points s' = points s + 10"
    by (cases "collisionCheck (candidateHead s) s") (simp_all add: eq Let_def)
  have food: "foodCoords s' = foodCoords f"
    by (cases "collisionCheck (candidateHead s) s") (simp_all add: eq Let_def)
  have calls: "randomCalls s' = randomCalls f"
    by (cases "collisionCheck (candidateHead s) s") (simp_all add: eq Let_def)
  from f food calls
  show "\<exists>f. populateFoodBall random frames s = Inr f \<and> foodCoords s' = foodCoords f \<and>
             randomCalls s' = randomCalls f" by blast
  from f have "keyOf (foodCoords f) \<notin> snakeCoordinatesMap s" by (rule pfb_result(2))
  then show "keyOf (foodCoords s') \<notin> snakeCoordinatesMap s" by (simp add: food)
qed

lemma moveSnake_gameOver_iff:
  assumes run: "\<not> gameOver s" and ne: "snakeCoordinates s \<noteq> []"
    and step: "moveSnake random frames False s = Inr s'"
  shows "gameOver s' \<longleftrightarrow> collisionCheck (candidateHead s) s"
  using moveSnake_collided(2) [OF ne _ step] moveSnake_committed(2) [OF ne _ step] run
  by blast

lemma last_cell_committed:
  assumes run: "\<not> gameOver s" and ne: "snakeCoordinates s \<noteq> []"
    and step: "moveSnake random frames False s = Inr s'" and alive: "\<not> gameOver s'"
  shows "last (snakeCoordinates s') = candidateHead s"
proof -
  have "\<not> collisionCheck (candidateHead s) s"
    using moveSnake_gameOver_iff [OF run ne step] alive by simp
  from moveSnake_committed(1) [OF ne this step] show ?thesis by simp
qed

subsection \<open>What a committed tick keeps\<close>

lemma default_cells:
  "map cellOf snakePositions =
     [(0,0), (0,1), (0,2), (0,3), (0,4), (0,5), (0,6), (0,7), (0,8), (0,9)]"
  by (simp add: snakePositions_def DEFAULT_LENGTH_def Let_def upt_rec cellOf_def)

lemma default_inBounds: "list_all inBounds snakePositions"
  by (simp add: snakePositions_def DEFAULT_LENGTH_def Let_def upt_rec inBounds_def ROWS_def COLS_def)

lemma default_length: "length snakePositions = 10"
  by (simp add: snakePositions_def DEFAULT_LENGTH_def Let_def)

lemma wellFormed_default:
  "snakeCoordinates u = snakePositions \<Longrightarrow> consistent u \<Longrightarrow> wellFormed u"
  by (simp add: wellFormed_def default_cells default_inBounds default_length)

lemma wellFormed_pfb:
  assumes "populateFoodBall random frames s = Inr s'" and "wellFormed s"
  shows "wellFormed s'"
proof -
  from assms(1) have "s' = s\<lparr>randomCalls := randomCalls s', foodCoords := foodCoords s'\<rparr>"
    by (rule pfb_result(1))
  then have "snakeCoordinates s' = snakeCoordinates s"
    "snakeCoordinatesMap s' = snakeCoordinatesMap s"
    by (metis App.select_convs App.surjective App.update_convs)+
  with assms(2) show ?thesis by (simp add: wellFormed_def consistent_def)
qed

lemma wellFormed_mount: "mount random frames = Inr s \<Longrightarrow> wellFormed s"
  unfolding mount_def
  by (erule wellFormed_pfb) (simp add: wellFormed_default sync_consistent)

lemma wellFormed_resetGame: "resetGame random frames s = Inr s' \<Longrightarrow> wellFormed s'"
  unfolding resetGame_def Let_def
  by (erule wellFormed_pfb) (simp add: wellFormed_default sync_consistent)

lemma wellFormed_handleDirectionChange:
  "wellFormed s \<Longrightarrow> wellFormed (handleDirectionChange k s)"
  by (simp add: handleDirectionChange_def Let_def wellFormed_def consistent_def)

lemma list_all_shift:
  assumes "coords \<noteq> []" and "list_all inBounds coords"
  shows "list_all inBounds (shiftBody (butlast coords) (last coords))"
proof (cases "butlast coords = []")
  case True
  then show ?thesis by (simp add: shiftBody_Nil)
next
  case False
  have "set (tl (butlast coords)) \<subseteq> set coords"
    using False by (meson in_set_butlastD list.set_sel(2) subsetI)
  moreover have "last coords \<in> set coords" using assms(1) by simp
  ultimately show ?thesis
    using assms(2) False by (auto simp: shiftBody_eq list_all_iff)
qed

lemma candidate_free:
  assumes "consistent s" and "\<not> collisionCheck (candidateHead s) s"
  shows "inBounds (candidateHead s)"
    and "cellOf (candidateHead s) \<notin> set (map cellOf (snakeCoordinates s))"
  using assms by (simp_all add: collisionCheck_iff consistent_def keyOf_image_iff)

text \<open>A tick that returns without a collision keeps a well-formed snake well-formed.\<close>

lemma wellFormed_moveSnake:
  assumes step: "moveSnake random frames False s = Inr s'" and wf: "wellFormed s"
    and free: "\<not> collisionCheck (candidateHead s) s"
  shows "wellFormed s'"
proof -
  from wf have len: "2 \<le> length (snakeCoordinates s)" and con: "consistent s"
    and dist: "distinct (map cellOf (snakeCoordinates s))"
    and inb: "list_all inBounds (snakeCoordinates s)"
    by (simp_all add: wellFormed_def)
  from len obtain a ys where body: "snakeCoordinates s = a # ys" and ys: "ys \<noteq> []"
    by (cases "snakeCoordinates s") force+
  then have ne: "snakeCoordinates s \<noteq> []" and bl: "butlast (snakeCoordinates s) \<noteq> []"
    by simp_all
  let ?sh = "shiftBody (butlast (snakeCoordinates s)) (last (snakeCoordinates s))"
  have sh_cells: "map cellOf ?sh = map cellOf ys"
    using shifted_cells [OF ne] body by simp
  have sh_inb: "list_all inBounds ?sh" using ne inb by (rule list_all_shift)
  have sh_len: "length ?sh = length ys" using body ys by (simp add: shifted_length)
  have hd_a: "hd (snakeCoordinates s) = a" using body by simp
  have a_inb: "inBounds a" using inb body by simp
  have dist_ys: "distinct (map cellOf ys)" and a_ys: "cellOf a \<notin> set (map cellOf ys)"
    using dist body by simp_all
  note cand = candidate_free [OF con free]
  note r = moveSnake_committed [OF ne free step]
  have new: "cellOf (candidateHead s) \<noteq> cellOf a"
    "cellOf (candidateHead s) \<notin> set (map cellOf ys)"
    using cand(2) body by auto
  have cells: "map cellOf (snakeCoordinates s') =
      (if cellOf (last (snakeCoordinates s)) = cellOf (foodCoords s) then [cellOf a] else [])
      @ map cellOf ys @ [cellOf (candidateHead s)]"
    by (simp add: r(1) sh_cells bl hd_a)
  have "distinct (map cellOf (snakeCoordinates s'))"
    unfolding cells using dist_ys a_ys new by auto
  moreover have "list_all inBounds (snakeCoordinates s')"
    using sh_inb cand(1) a_inb by (simp add: r(1) bl hd_a)
  moreover have "2 \<le> length (snakeCoordinates s')"
    using sh_len ys by (cases ys) (simp_all add: r(1))
  ultimately show ?thesis using r(3) by (simp add: wellFormed_def)
qed

text \<open>The equations that evaluate a concrete session.\<close>

lemmas eval_defs = play_def mount_def declared_def snakePositions_def DEFAULT_LENGTH_def
  syncSnakeCoordinatesMap_def moveSnake_def shiftBody_def collisionCheck_def stopGame_def
  clearInterval_def setInterval_def
  handleDirectionChange_def getNewDirection_def startGame_def resetGame_def
  occupiedAt_def sampleAt_def keyOf_def cellOf_def ROWS_def COLS_def Let_def
  coordsKey_eq_iff populateFoodBall_numeral candidateHead_def upt_rec
  steadyRandom_def foodAheadRandom_def foodOnHeadRandom_def foodTwoAheadRandom_def
  engineFrames_def toDouble_0 floor_double_81_2 floor_double_21_2 floor_double_45_4

subsection \<open>The concrete sessions\<close>

lemma ringSession_play:
  "play steadyRandom engineFrames
     [ClickStart, KeyDown ''ArrowDown'', TimerTick 1, KeyDown ''ArrowLeft'',
      TimerTick 1, TimerTick 1, TimerTick 1, TimerTick 1, KeyDown ''ArrowUp''] =
   Some ringSession"
  by (simp add: ringSession_def eval_defs del: populateFoodBall.simps)

lemma upSession_play:
  "play steadyRandom engineFrames [ClickStart, KeyDown ''ArrowUp''] = Some upSession"
  by (simp add: upSession_def eval_defs del: populateFoodBall.simps)

lemma crashedSession_play:
  "play steadyRandom engineFrames [ClickStart, KeyDown ''ArrowUp'', TimerTick 1] =
   Some crashedSession"
  by (simp add: crashedSession_def eval_defs del: populateFoodBall.simps)

lemma aheadSession_play: "play foodAheadRandom engineFrames [ClickStart] = Some aheadSession"
  by (simp add: aheadSession_def eval_defs del: populateFoodBall.simps)

lemma onFoodSession_play:
  "play foodOnHeadRandom engineFrames [ClickStart, TimerTick 1] = Some onFoodSession"
  by (simp add: onFoodSession_def eval_defs del: populateFoodBall.simps)

lemma onFoodUpSession_play:
  "play foodAheadRandom engineFrames [ClickStart, TimerTick 1, KeyDown ''ArrowUp''] =
   Some onFoodUpSession"
  by (simp add: onFoodUpSession_def eval_defs del: populateFoodBall.simps)

lemma leakedSession_play:
  "play steadyRandom engineFrames [ClickStart, ClickStart, KeyDown ''ArrowUp'', TimerTick 1] =
   Some leakedSession"
  by (simp add: leakedSession_def eval_defs del: populateFoodBall.simps)

section \<open>The claims\<close>

text \<open>
  In the statements a tick is the call \<open>moveSnake random frames False\<close>: the call that a
  timer makes, whose callback captured \<^verbatim>\<open>gameOver = false\<close> in the render that offered
  START.
\<close>

subsection \<open>Direction input\<close>

text \<open>
  Claim C7. For every current direction and every requested direction \<open>r\<close>, the
  direction change for \<open>r\<close> leaves the session as it is when \<open>r\<close> is the exact
  opposite of the current direction, and otherwise sets the current direction to \<open>r\<close>
  and nothing else. The operation returns a session in both cases: there is no error.
\<close>

theorem handleDirectionChange_button:
  "handleDirectionChange (buttonKey r) s =
     (if r = opposite (direction s) then s else s\<lparr>direction := r\<rparr>)"
  by (cases r; cases "direction s")
     (simp_all add: handleDirectionChange_def getNewDirection_def Let_def)

subsection \<open>Food placement\<close>





subsection \<open>The invariant of the snake\<close>

text \<open>
  Claim C8 fails in a session that clicks and keys reach. START is clicked twice before
  the first tick, so two timers run and \<^verbatim>\<open>timer.current\<close> holds the second. The snake
  heads up; the first tick runs into the wall and \<^verbatim>\<open>stopGame\<close> clears the second
  timer. The first timer goes on: its \<^verbatim>\<open>moveSnake\<close> captured \<^verbatim>\<open>gameOver = false\<close>, so
  the guard does not stop it, and each of its next eight ticks collides again and drops
  one more cell, down to the one cell \<open>(0, 9)\<close>. After a turn to the right the snake of
  one cell moves to \<open>(0, 10)\<close> and to \<open>(0, 11)\<close>, where the food is, and the tick that
  finds the head on the food puts the one object in front of itself: the array holds
  the cell \<open>(0, 12)\<close> twice.
\<close>

theorem one_cell_snake_doubles:
  "map_option (\<lambda>s. map cellOf (snakeCoordinates s))
     (play foodTwoAheadRandom engineFrames
        [ClickStart, ClickStart, KeyDown ''ArrowUp'',
         TimerTick 1, TimerTick 1, TimerTick 1, TimerTick 1, TimerTick 1,
         TimerTick 1, TimerTick 1, TimerTick 1, TimerTick 1]) =
     Some [(0, 9)] \<and>
   map_option (\<lambda>s. (map cellOf (snakeCoordinates s), cellOf (foodCoords s)))
     (play foodTwoAheadRandom engineFrames
        [ClickStart, ClickStart, KeyDown ''ArrowUp'',
         TimerTick 1, TimerTick 1, TimerTick 1, TimerTick 1, TimerTick 1,
         TimerTick 1, TimerTick 1, TimerTick 1, TimerTick 1,
         KeyDown ''ArrowRight'', TimerTick 1, TimerTick 1]) =
     Some ([(0, 11)], (0, 11)) \<and>
   map_option (\<lambda>s. map cellOf (snakeCoordinates s))
     (play foodTwoAheadRandom engineFrames
        [ClickStart, ClickStart, KeyDown ''ArrowUp'',
         TimerTick 1, TimerTick 1, TimerTick 1, TimerTick 1, TimerTick 1,
         TimerTick 1, TimerTick 1, TimerTick 1, TimerTick 1,
         KeyDown ''ArrowRight'', TimerTick 1, TimerTick 1, TimerTick 1]) =
     Some [(0, 12), (0, 12)] \<and>
   map_option (\<lambda>s. distinct (map cellOf (snakeCoordinates s)))
     (play foodTwoAheadRandom engineFrames
        [ClickStart, ClickStart, KeyDown ''ArrowUp'',
         TimerTick 1, TimerTick 1, TimerTick 1, TimerTick 1, TimerTick 1,
         TimerTick 1, TimerTick 1, TimerTick 1, TimerTick 1,
         KeyDown ''ArrowRight'', TimerTick 1, TimerTick 1, TimerTick 1]) =
     Some False"
  by (simp add: eval_defs del: populateFoodBall.simps)

subsection \<open>The occupied set\<close>

text \<open>
  Claim C3 fails in the session that a colliding tick leaves behind. The started default
  snake heads up and ticks: the candidate head \<open>(- 1, 9)\<close> is outside the grid, the
  game is over, the array has lost its tail cell \<open>(0, 0)\<close> by the pop and the shift, and
  the occupied set, which the colliding branch does not synchronise, still holds the
  key of \<open>(0, 0)\<close>.
\<close>

theorem occupied_set_stale_after_collision:
  "play steadyRandom engineFrames [ClickStart, KeyDown ''ArrowUp'', TimerTick 1] =
     Some crashedSession \<and>
   gameOver crashedSession \<and>
   map cellOf (snakeCoordinates crashedSession) =
     [(0, 1), (0, 2), (0, 3), (0, 4), (0, 5), (0, 6), (0, 7), (0, 8), (0, 9)] \<and>
   coordsKey 0 0 \<in> snakeCoordinatesMap crashedSession \<and>
   coordsKey 0 0 \<notin> keyOf ` set (snakeCoordinates crashedSession) \<and>
   snakeCoordinatesMap crashedSession \<noteq> keyOf ` set (snakeCoordinates crashedSession)"
proof -
  have cells: "map cellOf (snakeCoordinates crashedSession) =
     [(0, 1), (0, 2), (0, 3), (0, 4), (0, 5), (0, 6), (0, 7), (0, 8), (0, 9)]"
    by (simp add: crashedSession_def eval_defs del: populateFoodBall.simps)
  have over: "gameOver crashedSession"
    by (simp add: crashedSession_def eval_defs del: populateFoodBall.simps)
  have inside: "coordsKey 0 0 \<in> snakeCoordinatesMap crashedSession"
    by (simp add: crashedSession_def eval_defs del: populateFoodBall.simps)
  have "keyOf \<lparr>row = 0, col = 0, isHead = None\<rparr> \<notin> keyOf ` set (snakeCoordinates crashedSession)"
    unfolding keyOf_image_iff cells by (simp add: cellOf_def)
  then have outside: "coordsKey 0 0 \<notin> keyOf ` set (snakeCoordinates crashedSession)"
    by (simp add: keyOf_def)
  from inside outside
  have "snakeCoordinatesMap crashedSession \<noteq> keyOf ` set (snakeCoordinates crashedSession)"
    by blast
  with crashedSession_play over cells inside outside show ?thesis by simp
qed

subsection \<open>Ticks outside the running phase\<close>

text \<open>
  Claim C6 fails in the leaked session. START was clicked twice before the first tick
  and the first tick ran into the wall: the game is over, \<^verbatim>\<open>timer.current\<close> is empty,
  and the first timer is still there. Its next tick passes the guard, whose \<^verbatim>\<open>gameOver\<close>
  is the captured \<^verbatim>\<open>false\<close>, and pops and shifts the array again: 8 cells instead of 9.
  After PLAY AGAIN the session is idle (game not over, no timer in \<^verbatim>\<open>timer.current\<close>, no
  tick counted), and the tick of the same timer moves the new snake one cell to the right
  and counts itself.
\<close>

theorem tick_runs_outside_running:
  "play steadyRandom engineFrames [ClickStart, ClickStart, KeyDown ''ArrowUp'', TimerTick 1] =
     Some leakedSession \<and>
   (gameOver leakedSession, timer leakedSession, intervals leakedSession,
    map cellOf (snakeCoordinates leakedSession)) =
     (True, None, [(1, False)],
      [(0, 1), (0, 2), (0, 3), (0, 4), (0, 5), (0, 6), (0, 7), (0, 8), (0, 9)]) \<and>
   map_option (\<lambda>s. (gameOver s, map cellOf (snakeCoordinates s)))
     (fire steadyRandom engineFrames (TimerTick 1) leakedSession) =
     Some (True, [(0, 2), (0, 3), (0, 4), (0, 5), (0, 6), (0, 7), (0, 8), (0, 9)]) \<and>
   map_option (\<lambda>s. (gameOver s, timer s, isPlaying s, map cellOf (snakeCoordinates s)))
     (run steadyRandom engineFrames [ClickPlayAgain] leakedSession) =
     Some (False, None, 0,
           [(0, 0), (0, 1), (0, 2), (0, 3), (0, 4), (0, 5), (0, 6), (0, 7), (0, 8), (0, 9)]) \<and>
   map_option (\<lambda>s. (gameOver s, timer s, isPlaying s, map cellOf (snakeCoordinates s)))
     (run steadyRandom engineFrames [ClickPlayAgain, TimerTick 1] leakedSession) =
     Some (False, None, 1,
           [(0, 1), (0, 2), (0, 3), (0, 4), (0, 5), (0, 6), (0, 7), (0, 8), (0, 9), (0, 10)])"
proof -
  have "(gameOver leakedSession, timer leakedSession, intervals leakedSession,
    map cellOf (snakeCoordinates leakedSession)) =
     (True, None, [(1, False)],
      [(0, 1), (0, 2), (0, 3), (0, 4), (0, 5), (0, 6), (0, 7), (0, 8), (0, 9)])"
    by (simp add: leakedSession_def eval_defs del: populateFoodBall.simps)
  moreover have "map_option (\<lambda>s. (gameOver s, map cellOf (snakeCoordinates s)))
     (fire steadyRandom engineFrames (TimerTick 1) leakedSession) =
     Some (True, [(0, 2), (0, 3), (0, 4), (0, 5), (0, 6), (0, 7), (0, 8), (0, 9)])"
    by (simp add: leakedSession_def eval_defs del: populateFoodBall.simps)
  moreover have "map_option (\<lambda>s. (gameOver s, timer s, isPlaying s, map cellOf (snakeCoordinates s)))
     (run steadyRandom engineFrames [ClickPlayAgain] leakedSession) =
     Some (False, None, 0,
           [(0, 0), (0, 1), (0, 2), (0, 3), (0, 4), (0, 5), (0, 6), (0, 7), (0, 8), (0, 9)])"
    by (simp add: leakedSession_def eval_defs del: populateFoodBall.simps)
  moreover have "map_option (\<lambda>s. (gameOver s, timer s, isPlaying s, map cellOf (snakeCoordinates s)))
     (run steadyRandom engineFrames [ClickPlayAgain, TimerTick 1] leakedSession) =
     Some (False, None, 1,
           [(0, 1), (0, 2), (0, 3), (0, 4), (0, 5), (0, 6), (0, 7), (0, 8), (0, 9), (0, 10)])"
    by (simp add: leakedSession_def eval_defs del: populateFoodBall.simps)
  ultimately show ?thesis using leakedSession_play by simp
qed

subsection \<open>The collision test\<close>

text \<open>
  Claim C1, amended. In a tick of a session whose game is not over, whose snake is not
  empty and whose occupied set agrees with the snake, the collision test on the candidate
  head uses the occupied set as the previous operation synchronised it, that is the
  cells of the whole snake before the pop and the shift, old tail cell and old head cell
  included: the tick ends the game exactly when the candidate head is outside the grid or
  on a cell of that snake. In particular a candidate head on the cell of the old tail
  ends the game. (When the head is on the food, the tick returns provided one of the
  attempts of the food placement for which the stack has room samples a free cell.)
\<close>

theorem collision_test_uses_pre_tick_body:
  assumes run: "\<not> gameOver s" and ne: "snakeCoordinates s \<noteq> []"
    and con: "consistent s"
    and fair: "cellOf (last (snakeCoordinates s)) = cellOf (foodCoords s) \<longrightarrow>
               (\<exists>k<frames. \<not> occupiedAt random s k)"
  shows "\<exists>s'. moveSnake random frames False s = Inr s' \<and>
           (gameOver s' \<longleftrightarrow>
              \<not> inBounds (candidateHead s) \<or>
              cellOf (candidateHead s) \<in> set (map cellOf (snakeCoordinates s))) \<and>
           (cellOf (candidateHead s) = cellOf (hd (snakeCoordinates s)) \<longrightarrow> gameOver s')"
proof -
  from moveSnake_returns [OF ne fair]
  obtain s' where step: "moveSnake random frames False s = Inr s'" by blast
  have iff: "gameOver s' \<longleftrightarrow>
              \<not> inBounds (candidateHead s) \<or>
              cellOf (candidateHead s) \<in> set (map cellOf (snakeCoordinates s))"
    using con unfolding moveSnake_gameOver_iff [OF run ne step] collisionCheck_iff consistent_def
    by (simp add: keyOf_image_iff)
  have "cellOf (hd (snakeCoordinates s)) \<in> set (map cellOf (snakeCoordinates s))"
    using ne by simp
  with iff step show ?thesis by auto
qed

text \<open>The theorem at the ring session, where the candidate head is the old tail cell.\<close>

theorem collision_test_uses_pre_tick_body_witness:
  "\<not> gameOver ringSession \<and> snakeCoordinates ringSession \<noteq> [] \<and> consistent ringSession \<and>
   cellOf (last (snakeCoordinates ringSession)) \<noteq> cellOf (foodCoords ringSession) \<and>
   cellOf (candidateHead ringSession) = cellOf (hd (snakeCoordinates ringSession)) \<and>
   (\<exists>s'. moveSnake steadyRandom engineFrames False ringSession = Inr s' \<and> gameOver s')"
proof -
  have run: "\<not> gameOver ringSession"
    by (simp add: ringSession_def eval_defs del: populateFoodBall.simps)
  have ne: "snakeCoordinates ringSession \<noteq> []"
    by (simp add: ringSession_def eval_defs del: populateFoodBall.simps)
  have con: "consistent ringSession"
    by (simp add: consistent_def ringSession_def eval_defs del: populateFoodBall.simps)
  have away: "cellOf (last (snakeCoordinates ringSession)) \<noteq> cellOf (foodCoords ringSession)"
    by (simp add: ringSession_def eval_defs del: populateFoodBall.simps)
  then have fair: "cellOf (last (snakeCoordinates ringSession)) = cellOf (foodCoords ringSession) \<longrightarrow>
      (\<exists>k<engineFrames. \<not> occupiedAt steadyRandom ringSession k)" by simp
  have tail: "cellOf (candidateHead ringSession) = cellOf (hd (snakeCoordinates ringSession))"
    by (simp add: ringSession_def eval_defs del: populateFoodBall.simps)
  from collision_test_uses_pre_tick_body [OF run ne con fair] tail run ne con away
  show ?thesis by auto
qed

text \<open>
  Claim C1 as stated fails in the ring session. The running snake occupies
  \<open>(0, 5) \<dots> (0, 9), (1, 9) \<dots> (1, 5)\<close>, tail first, and heads up; the food is far away.
  The candidate head is \<open>(0, 5)\<close>, the cell of the old tail. That cell is not in the array
  after the pop and the shift, which is the array before the new head is appended, and
  yet the tick reports a collision and ends the game.
\<close>

theorem vacated_tail_cell_collides:
  "play steadyRandom engineFrames
     [ClickStart, KeyDown ''ArrowDown'', TimerTick 1, KeyDown ''ArrowLeft'',
      TimerTick 1, TimerTick 1, TimerTick 1, TimerTick 1, KeyDown ''ArrowUp''] =
     Some ringSession \<and>
   timer ringSession = Some 1 \<and> intervals ringSession = [(1, False)] \<and>
   \<not> gameOver ringSession \<and> direction ringSession = UP \<and>
   cellOf (foodCoords ringSession) = (40, 40) \<and>
   map cellOf (snakeCoordinates ringSession) =
     [(0, 5), (0, 6), (0, 7), (0, 8), (0, 9), (1, 9), (1, 8), (1, 7), (1, 6), (1, 5)] \<and>
   cellOf (candidateHead ringSession) = (0, 5) \<and>
   map cellOf (shiftBody (butlast (snakeCoordinates ringSession))
                 (last (snakeCoordinates ringSession))) =
     [(0, 6), (0, 7), (0, 8), (0, 9), (1, 9), (1, 8), (1, 7), (1, 6), (1, 5)] \<and>
   map_option gameOver (fire steadyRandom engineFrames (TimerTick 1) ringSession) = Some True"
proof -
  have "timer ringSession = Some 1 \<and> intervals ringSession = [(1, False)] \<and>
   \<not> gameOver ringSession \<and> direction ringSession = UP \<and>
   cellOf (foodCoords ringSession) = (40, 40) \<and>
   map cellOf (snakeCoordinates ringSession) =
     [(0, 5), (0, 6), (0, 7), (0, 8), (0, 9), (1, 9), (1, 8), (1, 7), (1, 6), (1, 5)] \<and>
   cellOf (candidateHead ringSession) = (0, 5)"
    by (simp add: ringSession_def eval_defs del: populateFoodBall.simps)
  moreover have "map cellOf (shiftBody (butlast (snakeCoordinates ringSession))
                 (last (snakeCoordinates ringSession))) =
     [(0, 6), (0, 7), (0, 8), (0, 9), (1, 9), (1, 8), (1, 7), (1, 6), (1, 5)]"
    by (simp add: ringSession_def eval_defs del: populateFoodBall.simps)
  moreover have "map_option gameOver (fire steadyRandom engineFrames (TimerTick 1) ringSession) =
      Some True"
    by (simp add: ringSession_def eval_defs del: populateFoodBall.simps)
  ultimately show ?thesis using ringSession_play by simp
qed

subsection \<open>Food consumption\<close>

text \<open>
  Claim C5. A tick of a session whose game is not over compares the head before the
  step, the last element of the array, with the food cell: if they are equal the score
  grows by 10 and the food is placed anew outside the occupied set, and if they differ
  the score and the food stay as they are, also when the stepped head is on the food.
  After a tick that did not end the game the last element of the array is the stepped
  head, so the next tick is the one that finds a head that stepped onto the food. (When
  the head is on the food, the tick returns provided one of the attempts of the food
  placement for which the stack has room samples a free cell.)
\<close>

theorem consumption_checks_pre_move_head:
  assumes run: "\<not> gameOver s" and ne: "snakeCoordinates s \<noteq> []"
    and fair: "cellOf (last (snakeCoordinates s)) = cellOf (foodCoords s) \<longrightarrow>
               (\<exists>k<frames. \<not> occupiedAt random s k)"
  shows "\<exists>s'. moveSnake random frames False s = Inr s' \<and>
           (if cellOf (last (snakeCoordinates s)) = cellOf (foodCoords s)
            then points s' = points s + 10 \<and>
                 keyOf (foodCoords s') \<notin> snakeCoordinatesMap s
            else points s' = points s \<and> foodCoords s' = foodCoords s) \<and>
           (gameOver s' \<or> last (snakeCoordinates s') = candidateHead s)"
proof -
  from moveSnake_returns [OF ne fair]
  obtain s' where step: "moveSnake random frames False s = Inr s'" by blast
  have "gameOver s' \<or> last (snakeCoordinates s') = candidateHead s"
    using last_cell_committed [OF run ne step] by blast
  moreover have "points s' = points s + 10 \<and> keyOf (foodCoords s') \<notin> snakeCoordinatesMap s"
    if "cellOf (last (snakeCoordinates s)) = cellOf (foodCoords s)"
    using moveSnake_new_food(1,3) [OF ne that step] by simp
  moreover have "points s' = points s \<and> foodCoords s' = foodCoords s"
    if "cellOf (last (snakeCoordinates s)) \<noteq> cellOf (foodCoords s)"
    using moveSnake_kept_food(1,2) [OF ne that step] by simp
  ultimately show ?thesis using step by auto
qed

text \<open>
  The theorem at the started default snake with the food on \<open>(0, 10)\<close>, the cell that the
  head steps onto: the tick leaves the score at 0 and the food where it is.
\<close>

theorem consumption_checks_pre_move_head_witness:
  "\<not> gameOver aheadSession \<and> snakeCoordinates aheadSession \<noteq> [] \<and>
   cellOf (last (snakeCoordinates aheadSession)) \<noteq> cellOf (foodCoords aheadSession) \<and>
   cellOf (candidateHead aheadSession) = cellOf (foodCoords aheadSession) \<and>
   points aheadSession = 0 \<and>
   (\<exists>s'. moveSnake foodAheadRandom engineFrames False aheadSession = Inr s' \<and>
         points s' = 0 \<and> foodCoords s' = foodCoords aheadSession \<and>
         last (snakeCoordinates s') = candidateHead aheadSession)"
proof -
  have run: "\<not> gameOver aheadSession"
    by (simp add: aheadSession_def eval_defs del: populateFoodBall.simps)
  have ne: "snakeCoordinates aheadSession \<noteq> []"
    by (simp add: aheadSession_def eval_defs del: populateFoodBall.simps)
  have away: "cellOf (last (snakeCoordinates aheadSession)) \<noteq> cellOf (foodCoords aheadSession)"
    by (simp add: aheadSession_def eval_defs del: populateFoodBall.simps)
  then have fair: "cellOf (last (snakeCoordinates aheadSession)) = cellOf (foodCoords aheadSession) \<longrightarrow>
      (\<exists>k<engineFrames. \<not> occupiedAt foodAheadRandom aheadSession k)" by simp
  have onto: "cellOf (candidateHead aheadSession) = cellOf (foodCoords aheadSession)"
    by (simp add: aheadSession_def eval_defs del: populateFoodBall.simps)
  have pts: "points aheadSession = 0"
    by (simp add: aheadSession_def eval_defs del: populateFoodBall.simps)
  have alive: "\<not> collisionCheck (candidateHead aheadSession) aheadSession"
    by (simp add: aheadSession_def eval_defs del: populateFoodBall.simps)
  from consumption_checks_pre_move_head [OF run ne fair] away
  obtain s' where s': "moveSnake foodAheadRandom engineFrames False aheadSession = Inr s'"
    "points s' = points aheadSession" "foodCoords s' = foodCoords aheadSession"
    "gameOver s' \<or> last (snakeCoordinates s') = candidateHead aheadSession"
    by auto
  from moveSnake_gameOver_iff [OF run ne s'(1)] alive have "\<not> gameOver s'" by simp
  with s' pts run ne away onto show ?thesis by auto
qed

text \<open>
  A tick that finds the head on the food and does not collide: the array grows by one
  element, the score grows by 10, and the new food is outside the occupied set of the
  snake before the move.
\<close>

lemma growth_without_collision:
  assumes ne: "snakeCoordinates s \<noteq> []"
    and eaten: "cellOf (last (snakeCoordinates s)) = cellOf (foodCoords s)"
    and free: "\<not> collisionCheck (candidateHead s) s"
    and step: "moveSnake random frames False s = Inr s'"
  shows "length (snakeCoordinates s') = length (snakeCoordinates s) + 1"
    and "points s' = points s + 10"
    and "keyOf (foodCoords s') \<notin> snakeCoordinatesMap s"
proof -
  show "length (snakeCoordinates s') = length (snakeCoordinates s) + 1"
    using ne eaten by (simp add: moveSnake_committed(1) [OF ne free step] shifted_length)
  show "points s' = points s + 10"
    by (rule moveSnake_new_food(1) [OF ne eaten step])
  show "keyOf (foodCoords s') \<notin> snakeCoordinatesMap s"
    by (rule moveSnake_new_food(3) [OF ne eaten step])
qed

text \<open>
  Claim C2 fails in the session whose head has reached the food at \<open>(0, 10)\<close> when the
  next sample is \<open>(0, 11)\<close>. The tick finds the head on the food, places the new food
  against the occupied set of the snake before the move, which does not hold the cell
  \<open>(0, 11)\<close>, and then moves the head onto \<open>(0, 11)\<close>: the snake has grown from 10 to 11
  cells, the score is 10, and the new food is on the new head.
\<close>

theorem food_lands_on_new_head:
  "play foodOnHeadRandom engineFrames [ClickStart, TimerTick 1] = Some onFoodSession \<and>
   \<not> gameOver onFoodSession \<and> points onFoodSession = 0 \<and>
   cellOf (foodCoords onFoodSession) = (0, 10) \<and>
   map cellOf (snakeCoordinates onFoodSession) =
     [(0, 1), (0, 2), (0, 3), (0, 4), (0, 5), (0, 6), (0, 7), (0, 8), (0, 9), (0, 10)] \<and>
   map_option (\<lambda>s. (gameOver s, points s, cellOf (foodCoords s), map cellOf (snakeCoordinates s)))
     (fire foodOnHeadRandom engineFrames (TimerTick 1) onFoodSession) =
     Some (False, 10, (0, 11),
           [(0, 1), (0, 2), (0, 3), (0, 4), (0, 5), (0, 6), (0, 7), (0, 8), (0, 9), (0, 10),
            (0, 11)]) \<and>
   map_option (\<lambda>s. keyOf (foodCoords s) \<in> keyOf ` set (snakeCoordinates s))
     (fire foodOnHeadRandom engineFrames (TimerTick 1) onFoodSession) = Some True"
proof -
  have before: "\<not> gameOver onFoodSession \<and> points onFoodSession = 0 \<and>
   cellOf (foodCoords onFoodSession) = (0, 10) \<and>
   map cellOf (snakeCoordinates onFoodSession) =
     [(0, 1), (0, 2), (0, 3), (0, 4), (0, 5), (0, 6), (0, 7), (0, 8), (0, 9), (0, 10)]"
    by (simp add: onFoodSession_def eval_defs del: populateFoodBall.simps)
  have after: "map_option (\<lambda>s. (gameOver s, points s, cellOf (foodCoords s), map cellOf (snakeCoordinates s)))
     (fire foodOnHeadRandom engineFrames (TimerTick 1) onFoodSession) =
     Some (False, 10, (0, 11),
           [(0, 1), (0, 2), (0, 3), (0, 4), (0, 5), (0, 6), (0, 7), (0, 8), (0, 9), (0, 10),
            (0, 11)])"
    by (simp add: onFoodSession_def eval_defs del: populateFoodBall.simps)
  then obtain s' where s': "fire foodOnHeadRandom engineFrames (TimerTick 1) onFoodSession = Some s'"
    and food: "cellOf (foodCoords s') = (0, 11)"
    and cells: "map cellOf (snakeCoordinates s') =
           [(0, 1), (0, 2), (0, 3), (0, 4), (0, 5), (0, 6), (0, 7), (0, 8), (0, 9), (0, 10),
            (0, 11)]"
    by auto
  have "keyOf (foodCoords s') \<in> keyOf ` set (snakeCoordinates s')"
    unfolding keyOf_image_iff cells food by simp
  then have "map_option (\<lambda>s. keyOf (foodCoords s) \<in> keyOf ` set (snakeCoordinates s))
     (fire foodOnHeadRandom engineFrames (TimerTick 1) onFoodSession) = Some True"
    unfolding s' by simp
  with onFoodSession_play before after show ?thesis by simp
qed

subsection \<open>Ticks that end in a collision\<close>

text \<open>
  Claim C4, amended. A tick of a session whose game is not over and whose stepped head
  collides returns a session with the game over and the tick count at 0, and with the
  direction and the occupied set as before the tick. If the head before the step is not
  on the food, the food and the score are as before the tick; if it is, the score has
  grown by 10 and the food has been placed anew outside the occupied set. (When the head
  is on the food, the tick returns provided one of the attempts of the food placement
  for which the stack has room samples a free cell.)
\<close>

theorem collision_tick_effects:
  assumes run: "\<not> gameOver s" and ne: "snakeCoordinates s \<noteq> []"
    and hit: "collisionCheck (candidateHead s) s"
    and fair: "cellOf (last (snakeCoordinates s)) = cellOf (foodCoords s) \<longrightarrow>
               (\<exists>k<frames. \<not> occupiedAt random s k)"
  shows "\<exists>s'. moveSnake random frames False s = Inr s' \<and> gameOver s' \<and> isPlaying s' = 0 \<and>
           direction s' = direction s \<and> snakeCoordinatesMap s' = snakeCoordinatesMap s \<and>
           (if cellOf (last (snakeCoordinates s)) = cellOf (foodCoords s)
            then points s' = points s + 10 \<and>
                 keyOf (foodCoords s') \<notin> snakeCoordinatesMap s
            else points s' = points s \<and> foodCoords s' = foodCoords s)"
proof -
  from moveSnake_returns [OF ne fair]
  obtain s' where step: "moveSnake random frames False s = Inr s'" by blast
  note c = moveSnake_collided [OF ne hit step]
  have "points s' = points s + 10 \<and> keyOf (foodCoords s') \<notin> snakeCoordinatesMap s"
    if "cellOf (last (snakeCoordinates s)) = cellOf (foodCoords s)"
    using moveSnake_new_food(1,3) [OF ne that step] by simp
  moreover have "points s' = points s \<and> foodCoords s' = foodCoords s"
    if "cellOf (last (snakeCoordinates s)) \<noteq> cellOf (foodCoords s)"
    using moveSnake_kept_food(1,2) [OF ne that step] by simp
  ultimately show ?thesis using step c(2-5) by auto
qed

text \<open>
  The theorem at the started default snake heading up into the wall, with the food far
  away: the tick ends the game and keeps the score and the food.
\<close>

theorem collision_tick_effects_witness:
  "\<not> gameOver upSession \<and> snakeCoordinates upSession \<noteq> [] \<and>
   collisionCheck (candidateHead upSession) upSession \<and>
   cellOf (last (snakeCoordinates upSession)) \<noteq> cellOf (foodCoords upSession) \<and>
   (\<exists>s'. moveSnake steadyRandom engineFrames False upSession = Inr s' \<and> gameOver s' \<and>
         direction s' = UP \<and> snakeCoordinatesMap s' = snakeCoordinatesMap upSession \<and>
         points s' = points upSession \<and> foodCoords s' = foodCoords upSession)"
proof -
  have run: "\<not> gameOver upSession"
    by (simp add: upSession_def eval_defs del: populateFoodBall.simps)
  have ne: "snakeCoordinates upSession \<noteq> []"
    by (simp add: upSession_def eval_defs del: populateFoodBall.simps)
  have hit: "collisionCheck (candidateHead upSession) upSession"
    by (simp add: upSession_def eval_defs del: populateFoodBall.simps)
  have away: "cellOf (last (snakeCoordinates upSession)) \<noteq> cellOf (foodCoords upSession)"
    by (simp add: upSession_def eval_defs del: populateFoodBall.simps)
  then have fair: "cellOf (last (snakeCoordinates upSession)) = cellOf (foodCoords upSession) \<longrightarrow>
      (\<exists>k<engineFrames. \<not> occupiedAt steadyRandom upSession k)" by simp
  have up: "direction upSession = UP"
    by (simp add: upSession_def eval_defs del: populateFoodBall.simps)
  from collision_tick_effects [OF run ne hit fair] away up
  have "\<exists>s'. moveSnake steadyRandom engineFrames False upSession = Inr s' \<and> gameOver s' \<and>
         direction s' = UP \<and> snakeCoordinatesMap s' = snakeCoordinatesMap upSession \<and>
         points s' = points upSession \<and> foodCoords s' = foodCoords upSession"
    by auto
  with run ne hit away show ?thesis by simp
qed

text \<open>
  Claim C4 as stated fails in the session whose head is on the food at \<open>(0, 10)\<close> and
  heads up into the wall. The tick ends the game, and the session it returns has the
  score at 10 instead of 0 and the food at \<open>(40, 40)\<close> instead of \<open>(0, 10)\<close>; the array
  of the snake has lost its tail cell \<open>(0, 1)\<close>.
\<close>

theorem collision_tick_not_atomic:
  "play foodAheadRandom engineFrames [ClickStart, TimerTick 1, KeyDown ''ArrowUp''] =
     Some onFoodUpSession \<and>
   (gameOver onFoodUpSession, points onFoodUpSession, cellOf (foodCoords onFoodUpSession),
    map cellOf (snakeCoordinates onFoodUpSession)) =
     (False, 0, (0, 10),
      [(0, 1), (0, 2), (0, 3), (0, 4), (0, 5), (0, 6), (0, 7), (0, 8), (0, 9), (0, 10)]) \<and>
   map_option (\<lambda>s. (gameOver s, points s, cellOf (foodCoords s), map cellOf (snakeCoordinates s)))
     (fire foodAheadRandom engineFrames (TimerTick 1) onFoodUpSession) =
     Some (True, 10, (40, 40),
           [(0, 2), (0, 3), (0, 4), (0, 5), (0, 6), (0, 7), (0, 8), (0, 9), (0, 10)])"
proof -
  have "(gameOver onFoodUpSession, points onFoodUpSession, cellOf (foodCoords onFoodUpSession),
    map cellOf (snakeCoordinates onFoodUpSession)) =
     (False, 0, (0, 10),
      [(0, 1), (0, 2), (0, 3), (0, 4), (0, 5), (0, 6), (0, 7), (0, 8), (0, 9), (0, 10)])"
    by (simp add: onFoodUpSession_def eval_defs del: populateFoodBall.simps)
  moreover have "map_option (\<lambda>s. (gameOver s, points s, cellOf (foodCoords s), map cellOf (snakeCoordinates s)))
     (fire foodAheadRandom engineFrames (TimerTick 1) onFoodUpSession) =
     Some (True, 10, (40, 40),
           [(0, 2), (0, 3), (0, 4), (0, 5), (0, 6), (0, 7), (0, 8), (0, 9), (0, 10)])"
    by (simp add: onFoodUpSession_def eval_defs del: populateFoodBall.simps)
  ultimately show ?thesis using onFoodUpSession_play by simp
qed

subsection \<open>Consumption on a colliding tick\<close>

text \<open>
  What holds of a tick that finds the head on the food and collides: the food is placed
  anew, outside the occupied set and so on another cell when the set agrees with the
  snake, the score grows by 10, and the game is over; the stepped head is not appended,
  the occupied set and the direction are as before, and the array is the popped and
  shifted one.
\<close>

lemma consumption_before_collision:
  assumes run: "\<not> gameOver s" and ne: "snakeCoordinates s \<noteq> []"
    and eaten: "cellOf (last (snakeCoordinates s)) = cellOf (foodCoords s)"
    and hit: "collisionCheck (candidateHead s) s"
    and free: "k < frames" "\<not> occupiedAt random s k"
  shows "\<exists>s' f. moveSnake random frames False s = Inr s' \<and>
           populateFoodBall random frames s = Inr f \<and>
           gameOver s' \<and> points s' = points s + 10 \<and>
           foodCoords s' = foodCoords f \<and>
           keyOf (foodCoords s') \<notin> snakeCoordinatesMap s \<and>
           (consistent s \<longrightarrow> cellOf (foodCoords s') \<noteq> cellOf (foodCoords s)) \<and>
           snakeCoordinates s' =
             shiftBody (butlast (snakeCoordinates s)) (last (snakeCoordinates s)) \<and>
           map cellOf (snakeCoordinates s') = tl (map cellOf (snakeCoordinates s)) \<and>
           snakeCoordinatesMap s' = snakeCoordinatesMap s \<and>
           direction s' = direction s"
proof -
  from eaten free have fair: "cellOf (last (snakeCoordinates s)) = cellOf (foodCoords s) \<longrightarrow>
               (\<exists>k<frames. \<not> occupiedAt random s k)" by blast
  from moveSnake_returns [OF ne fair]
  obtain s' where step: "moveSnake random frames False s = Inr s'" by blast
  note nf = moveSnake_new_food [OF ne eaten step]
  from nf(2) obtain f where f: "populateFoodBall random frames s = Inr f"
    and food: "foodCoords s' = foodCoords f" by blast
  note c = moveSnake_collided [OF ne hit step]
  have cells: "map cellOf (snakeCoordinates s') = tl (map cellOf (snakeCoordinates s))"
    unfolding c(1) using ne by (rule shifted_cells)
  have moved: "cellOf (foodCoords s') \<noteq> cellOf (foodCoords s)" if "consistent s"
  proof
    assume "cellOf (foodCoords s') = cellOf (foodCoords s)"
    then have "keyOf (foodCoords s') = keyOf (last (snakeCoordinates s))"
      using eaten by (simp add: keyOf_eq_iff)
    moreover have "keyOf (last (snakeCoordinates s)) \<in> snakeCoordinatesMap s"
      using that ne by (simp add: consistent_def)
    ultimately show False using nf(3) by simp
  qed
  show ?thesis using step f food c(1-4) cells nf(1,3) moved by auto
qed


end
